theory Spec2Isabelle
  imports Complex_Main "HOL-Library.Sublist" "HOL-Library.Char_ord" "HOL-Library.List_Lexorder"
    "HOL-Library.Product_Lexorder"
begin

section \<open>Data model of the storefront (\<open>useProducts\<close>: interface \<open>Product\<close>)\<close>

text \<open>
  The TypeScript interface \<open>Product\<close> with its nested image and variant rows.  A field of
  type \<open>T | null\<close> is an \<open>option\<close>; the optional \<open>category\<close> object is an \<open>option\<close> as
  well.  A JavaScript \<open>number\<close> that holds a database numeric is a \<open>real\<close>.  Field names
  are those of the source, except where a name is used by two interfaces or by HOL itself
  (\<open>id\<close>, \<open>size\<close>, \<open>is_active\<close>).
\<close>

record category_ref =
  category_name :: string
  category_slug :: string

record image =
  image_id :: string
  image_url :: string
  alt_text :: "string option"
  is_primary :: bool
  sort_order :: real

record variant =
  variant_id :: string
  size_label :: "string option"
  color_name :: "string option"
  color_code :: "string option"
  stock_quantity :: real
  price_adjustment :: real
  variant_is_active :: bool

record product =
  product_id :: string
  name :: string
  description :: "string option"
  category_id :: "string option"
  subcategory :: "string option"
  price :: real
  original_price :: "real option"
  sku :: "string option"
  slug :: string
  is_active :: bool
  is_hot_sale :: bool
  rating :: real
  review_count :: real
  created_at :: string
  updated_at :: string
  category :: "category_ref option"
  images :: "image list"
  variants :: "variant list"

section \<open>JavaScript values that the code relies on\<close>

text \<open>
  What a \<open>throw\<close> can carry: an instance of \<open>Error\<close> with its message (a \<open>TypeError\<close> is
  one), or any other value, of which only its rendering by \<open>String(_)\<close> is kept.
\<close>

datatype thrown = ErrorInstance string | TypeError string | OtherValue string

fun instanceof_Error :: "thrown \<Rightarrow> bool" where
  "instanceof_Error (ErrorInstance m) = True"
| "instanceof_Error (TypeError m) = True"
| "instanceof_Error (OtherValue s) = False"

fun message :: "thrown \<Rightarrow> string" where
  "message (ErrorInstance m) = m"
| "message (TypeError m) = m"
| "message (OtherValue s) = s"

text \<open>Truthiness of a string or of a nullable string: \<open>null\<close> and \<open>""\<close> are falsy.\<close>

definition truthy :: "string \<Rightarrow> bool" where
  "truthy s = (s \<noteq> [])"

fun truthy_opt :: "string option \<Rightarrow> bool" where
  "truthy_opt None = False"
| "truthy_opt (Some s) = truthy s"

text \<open>\<open>a || b\<close> on a nullable string \<open>a\<close> and a string \<open>b\<close>.\<close>

fun or_else :: "string option \<Rightarrow> string \<Rightarrow> string" where
  "or_else None d = d"
| "or_else (Some s) d = (if truthy s then s else d)"

subsection \<open>\<open>String.prototype.toLowerCase\<close> and \<open>String.prototype.includes\<close>\<close>

text \<open>
  A string is a list of characters with the codes 0 to 255, read as the code units
  \<open>U+0000\<close> to \<open>U+00FF\<close>.  On these \<open>toLowerCase\<close> works unit by unit: it adds 32 to the
  letters \<open>A\<close> to \<open>Z\<close> and to the letters from \<open>U+00C0\<close> to \<open>U+00DE\<close>, the multiplication
  sign \<open>U+00D7\<close> excepted, and leaves every other unit alone.
\<close>

definition toLowerCase_char :: "char \<Rightarrow> char" where
  "toLowerCase_char c =
     (let n = (of_char c :: nat) in
      if (65 \<le> n \<and> n \<le> 90) \<or> (192 \<le> n \<and> n \<le> 222 \<and> n \<noteq> 215) then char_of (n + 32) else c)"

definition toLowerCase :: "string \<Rightarrow> string" where
  "toLowerCase s = map toLowerCase_char s"

text \<open>
  \<open>hay.includes(needle)\<close>: the needle occurs in the hay at some position; the empty needle
  occurs in every string.
\<close>

fun includes_str :: "string \<Rightarrow> string \<Rightarrow> bool" where
  "includes_str [] needle = (needle = [])"
| "includes_str (c # cs) needle = (prefix needle (c # cs) \<or> includes_str cs needle)"


section \<open>Category mapping (\<open>ProductsPage\<close>: \<open>getCategorySlug\<close>)\<close>

text \<open>
  \<open>categoryMap\<close> is an object literal, and \<open>categoryMap[category]\<close> is a property read on
  it: the own properties first, then those inherited from \<open>Object.prototype\<close>.  What a read
  yields is a string of the table, \<open>undefined\<close>, or one of the builtin members of
  \<open>Object.prototype\<close> (a function, or for \<open>__proto__\<close> the prototype object), here named
  by its key.
\<close>

datatype js_value = Str string | Undefined | Builtin string

definition Object_prototype_keys :: "string list" where
  "Object_prototype_keys =
     [''constructor'', ''__defineGetter__'', ''__defineSetter__'', ''hasOwnProperty'',
      ''__lookupGetter__'', ''__lookupSetter__'', ''isPrototypeOf'', ''propertyIsEnumerable'',
      ''toString'', ''valueOf'', ''__proto__'', ''toLocaleString'']"

definition get_property :: "(string \<times> string) list \<Rightarrow> string \<Rightarrow> js_value" where
  "get_property obj key =
     (case map_of obj key of
        Some v \<Rightarrow> Str v
      | None \<Rightarrow> if key \<in> set Object_prototype_keys then Builtin key else Undefined)"

fun truthy_value :: "js_value \<Rightarrow> bool" where
  "truthy_value (Str s) = truthy s"
| "truthy_value Undefined = False"
| "truthy_value (Builtin k) = True"

definition js_or :: "js_value \<Rightarrow> js_value \<Rightarrow> js_value" where
  "js_or a b = (if truthy_value a then a else b)"

definition categoryMap :: "(string \<times> string) list" where
  "categoryMap =
     [(''men'', ''mens-t-shirts''),
      (''men-tshirts'', ''mens-t-shirts''),
      (''men-bottomwear'', ''mens-bottomwear''),
      (''women'', ''womens-leggings''),
      (''women-leggings'', ''womens-leggings''),
      (''shapewear'', ''saree-shapewear''),
      (''nightwear'', ''night-wear'')]"

definition getCategorySlug :: "string \<Rightarrow> js_value" where
  "getCategorySlug cat = js_or (get_property categoryMap cat) (Str cat)"

section \<open>Client-side filter (\<open>ProductsPage\<close>: the subcategory effect and \<open>handleFilterClick\<close>)\<close>

text \<open>
  The predicate of the effect that follows the \<open>subcategory\<close> query parameter:
  \<open>product.name.toLowerCase().includes(t) || product.description?.toLowerCase().includes(t)\<close>
  with \<open>t = subcategory.toLowerCase()\<close>.  On a \<open>null\<close> description the optional chain is
  \<open>undefined\<close>, which \<open>filter\<close> reads as false.
\<close>

definition matches_subcategory :: "string \<Rightarrow> product \<Rightarrow> bool" where
  "matches_subcategory subcat p =
     (includes_str (toLowerCase (name p)) (toLowerCase subcat) \<or>
      (case description p of
         None \<Rightarrow> False
       | Some d \<Rightarrow> includes_str (toLowerCase d) (toLowerCase subcat)))"

text \<open>
  The value that the effect hands to \<open>setFilteredProducts\<close>, given the query parameter
  (\<open>null\<close> when absent) and the fetched products.
\<close>

definition subcategoryFilter :: "string option \<Rightarrow> product list \<Rightarrow> product list" where
  "subcategoryFilter subcat ps =
     (case subcat of
        None \<Rightarrow> ps
      | Some t \<Rightarrow> if truthy t \<and> t \<noteq> ''all'' then filter (matches_subcategory t) ps else ps)"

text \<open>
  The predicate of \<open>handleFilterClick\<close> reads \<open>product.description.toLowerCase()\<close> without
  the optional chain.  The right operand of \<open>||\<close> is evaluated only when the name does not
  match; on a \<open>null\<close> description it then throws a \<open>TypeError\<close>.
\<close>

definition null_toLowerCase :: thrown where
  "null_toLowerCase = TypeError ''Cannot read properties of null (reading 'toLowerCase')''"

definition matches_click :: "string \<Rightarrow> product \<Rightarrow> thrown + bool" where
  "matches_click flt p =
     (if includes_str (toLowerCase (name p)) (toLowerCase flt) then Inr True
      else case description p of
             None \<Rightarrow> Inl null_toLowerCase
           | Some d \<Rightarrow> Inr (includes_str (toLowerCase d) (toLowerCase flt)))"

text \<open>
  \<open>Array.prototype.filter\<close> with a callback that may throw: the elements are visited in
  order and the first exception ends the call.
\<close>

fun filter_throwing :: "('a \<Rightarrow> thrown + bool) \<Rightarrow> 'a list \<Rightarrow> thrown + 'a list" where
  "filter_throwing f [] = Inr []"
| "filter_throwing f (x # xs) =
     (case f x of
        Inl e \<Rightarrow> Inl e
      | Inr b \<Rightarrow>
          (case filter_throwing f xs of
             Inl e \<Rightarrow> Inl e
           | Inr ys \<Rightarrow> Inr (if b then x # ys else ys)))"

text \<open>The value that \<open>handleFilterClick\<close> hands to \<open>setFilteredProducts\<close>, or what it throws.\<close>

definition filterClick :: "string \<Rightarrow> product list \<Rightarrow> thrown + product list" where
  "filterClick flt ps =
     (if flt = ''All'' \<or> flt = ''all'' then Inr ps else filter_throwing (matches_click flt) ps)"


subsection \<open>The page state, with arrays held by reference\<close>

text \<open>
  \<open>products\<close> and \<open>filteredProducts\<close> are React state cells that hold references to
  arrays.  The store lists the arrays that exist; a reference is a position in it, and a
  new array is put at the end.  \<open>setFilteredProducts(products)\<close> stores the reference
  itself, whereas \<open>products.filter(...)\<close> makes a new array.
\<close>

type_synonym array_store = "product list list"

definition alloc :: "array_store \<Rightarrow> product list \<Rightarrow> array_store \<times> nat" where
  "alloc h xs = (h @ [xs], length h)"

definition deref :: "array_store \<Rightarrow> nat \<Rightarrow> product list" where
  "deref h r = (if r < length h then h ! r else [])"

record page_state =
  store :: array_store
  products_ref :: nat
  filteredProducts_ref :: nat
  selectedFilter :: string

text \<open>
  The effect with dependencies \<open>[subcategory, products]\<close>.  Its \<open>else\<close> branch, taken for
  an absent or empty parameter and for \<open>all\<close>, is \<open>show_all\<close>.
\<close>

definition show_all :: "page_state \<Rightarrow> page_state" where
  "show_all s = s\<lparr>filteredProducts_ref := products_ref s, selectedFilter := ''all''\<rparr>"

definition subcategory_effect :: "string option \<Rightarrow> page_state \<Rightarrow> page_state" where
  "subcategory_effect subcat s =
     (case subcat of
        None \<Rightarrow> show_all s
      | Some t \<Rightarrow>
          if truthy t \<and> t \<noteq> ''all'' then
            (let filtered = filter (matches_subcategory t) (deref (store s) (products_ref s));
                 (h, r) = alloc (store s) filtered
             in s\<lparr>store := h, filteredProducts_ref := r, selectedFilter := t\<rparr>)
          else show_all s)"

text \<open>
  \<open>handleFilterClick\<close>: the state it leaves, and the exception that escapes from it, if
  any.  \<open>setSelectedFilter\<close> has been called before the filter runs.
\<close>

definition handleFilterClick :: "string \<Rightarrow> page_state \<Rightarrow> page_state \<times> thrown option" where
  "handleFilterClick flt s =
     (let s1 = s\<lparr>selectedFilter := flt\<rparr> in
      if flt = ''All'' \<or> flt = ''all'' then (s1\<lparr>filteredProducts_ref := products_ref s1\<rparr>, None)
      else
        (case filter_throwing (matches_click flt) (deref (store s1) (products_ref s1)) of
           Inl e \<Rightarrow> (s1, Some e)
         | Inr filtered \<Rightarrow>
             (let (h, r) = alloc (store s1) filtered
              in (s1\<lparr>store := h, filteredProducts_ref := r\<rparr>, None))))"

section \<open>View-model derivation\<close>

definition placeholder :: string where
  "placeholder = ''/placeholder.svg''"

text \<open>
  \<open>ProductDetailPage\<close>, and again \<open>handleAddToCart\<close> of \<open>BestSelling\<close>:
  \<open>productImages.find(img => img.is_primary) || productImages[0]\<close>, then
  \<open>primaryImage?.image_url || '/placeholder.svg'\<close>.  \<open>images\<close> is an array by its type, so
  the guard \<open>product.images || []\<close> changes nothing.
\<close>

definition first_elem :: "'a list \<Rightarrow> 'a option" where
  "first_elem xs = (case xs of [] \<Rightarrow> None | x # _ \<Rightarrow> Some x)"

definition primaryImage :: "product \<Rightarrow> image option" where
  "primaryImage p =
     (case find is_primary (images p) of
        Some img \<Rightarrow> Some img
      | None \<Rightarrow> first_elem (images p))"

definition primaryImageUrl :: "product \<Rightarrow> string" where
  "primaryImageUrl p = or_else (map_option image_url (primaryImage p)) placeholder"

text \<open>
  The \<open>image\<close> prop of the product card, in \<open>ProductsPage\<close> and in the card mapping of
  \<open>BestSelling\<close>: \<open>product.images?.[0]?.image_url || '/placeholder.svg'\<close>.
\<close>

definition cardImage :: "product \<Rightarrow> string" where
  "cardImage p = or_else (map_option image_url (first_elem (images p))) placeholder"

subsection \<open>Facets of the detail page\<close>

text \<open>
  \<open>xs.filter(Boolean)\<close> on an array of nullable strings drops \<open>null\<close> and \<open>""\<close>.
\<close>

fun filter_Boolean :: "string option list \<Rightarrow> string list" where
  "filter_Boolean [] = []"
| "filter_Boolean (None # xs) = filter_Boolean xs"
| "filter_Boolean (Some s # xs) = (if truthy s then s # filter_Boolean xs else filter_Boolean xs)"

text \<open>
  \<open>[...new Set(xs)]\<close>: the constructor adds the elements one by one, an element that is
  already in the set is not added again, and the spread lists the set in insertion order.
  Membership compares strings by their characters and objects by their identity; \<open>key\<close>
  gives what is compared.
\<close>

definition Set_add :: "('a \<Rightarrow> 'k) \<Rightarrow> 'a list \<Rightarrow> 'a \<Rightarrow> 'a list" where
  "Set_add key s x = (if key x \<in> key ` set s then s else s @ [x])"

definition new_Set :: "('a \<Rightarrow> 'k) \<Rightarrow> 'a list \<Rightarrow> 'a list" where
  "new_Set key xs = foldl (Set_add key) [] xs"

text \<open>
  The size options:
  \<open>[...new Set(product.variants.map(v => v.size).filter(Boolean))]\<close>.
\<close>

definition sizeFacets :: "product \<Rightarrow> string list" where
  "sizeFacets p = new_Set (\<lambda>s. s) (filter_Boolean (map size_label (variants p)))"

text \<open>
  The colour buttons:
  \<open>[...new Set(product.variants.map(v => ({ name: v.color_name, code: v.color_code }))
  .filter(c => c.name))]\<close>.
  Each call of the arrow function makes a new object; the objects of one \<open>map\<close> are
  numbered in the order of their creation, and the set compares them by that identity.
\<close>

record color_facet =
  facet_name :: "string option"
  facet_code :: "string option"

definition colorObjects :: "product \<Rightarrow> (nat \<times> color_facet) list" where
  "colorObjects p =
     enumerate 0 (map (\<lambda>v. \<lparr>facet_name = color_name v, facet_code = color_code v\<rparr>) (variants p))"

definition colorFacets :: "product \<Rightarrow> color_facet list" where
  "colorFacets p =
     map snd (new_Set fst (filter (\<lambda>c. truthy_opt (facet_name (snd c))) (colorObjects p)))"

section \<open>The \<open>BestSelling\<close> component\<close>

subsection \<open>\<open>parseInt\<close> and strict equality of numbers\<close>

text \<open>
  The numbers that \<open>parseInt\<close> can return: \<open>NaN\<close>, an integer that a double holds exactly,
  or an infinity.  \<open>===\<close> on them is equality, except that \<open>NaN\<close> equals nothing, itself
  included (\<open>-0\<close> and \<open>0\<close> are one number here, as they are for \<open>===\<close>).
\<close>

datatype js_number = NaN | Num int | Infinity | NegInfinity

fun strict_eq :: "js_number \<Rightarrow> js_number \<Rightarrow> bool" where
  "strict_eq (Num a) (Num b) = (a = b)"
| "strict_eq Infinity Infinity = True"
| "strict_eq NegInfinity NegInfinity = True"
| "strict_eq _ _ = False"

text \<open>
  The double nearest to a non-negative integer, ties to the even significand: an integer
  of at most 53 bits is kept; a longer one keeps its 53 leading bits, rounded by the bits
  that are cut off; beyond the largest double the result is \<open>Infinity\<close>.
\<close>

function bit_length :: "int \<Rightarrow> nat" where
  "bit_length n = (if n \<le> 0 then 0 else Suc (bit_length (n div 2)))"
  by pat_completeness auto
termination
  by (relation "measure nat") auto

declare bit_length.simps [simp del]

definition to_double :: "int \<Rightarrow> js_number" where
  "to_double m =
     (let len = bit_length m in
      if len \<le> 53 then Num m
      else
        (let e = len - 53;
             q = m div 2 ^ e;
             r = m mod 2 ^ e;
             half = 2 ^ (e - 1);
             q' = (if half < r \<or> (r = half \<and> odd q) then q + 1 else q)
         in if 1024 < bit_length (q' * 2 ^ e) then Infinity else Num (q' * 2 ^ e)))"

text \<open>
  \<open>parseInt(s)\<close> without a radix: leading white space is skipped, then an optional sign,
  then an optional \<open>0x\<close> or \<open>0X\<close> that selects radix 16, then the longest run of digits of
  the radix; without a digit the result is \<open>NaN\<close>, otherwise the number that the digits
  denote, as a double, with the sign.  The digits are read exactly, also where the
  language lets an engine replace the decimal digits after the twentieth by zeros.  Among
  the code units below 256 the white space of the language is 9 to 13, 32 and 160 (the
  no-break space).
\<close>

definition is_white_space :: "char \<Rightarrow> bool" where
  "is_white_space c = (of_char c \<in> {9, 10, 11, 12, 13, 32, 160 :: nat})"

definition digit_value :: "int \<Rightarrow> char \<Rightarrow> int option" where
  "digit_value radix c =
     (let n = (of_char c :: int);
          d = (if 48 \<le> n \<and> n \<le> 57 then Some (n - 48)
               else if 97 \<le> n \<and> n \<le> 122 then Some (n - 87)
               else if 65 \<le> n \<and> n \<le> 90 then Some (n - 55)
               else None)
      in case d of None \<Rightarrow> None | Some v \<Rightarrow> if v < radix then Some v else None)"

definition digits_value :: "int \<Rightarrow> string \<Rightarrow> js_number" where
  "digits_value radix s =
     (let z = takeWhile (\<lambda>c. digit_value radix c \<noteq> None) s
      in if z = [] then NaN
         else to_double (foldl (\<lambda>acc c. acc * radix + the (digit_value radix c)) 0 z))"

definition strip_prefix :: "string \<Rightarrow> js_number" where
  "strip_prefix s =
     (if take 2 s = ''0x'' \<or> take 2 s = ''0X'' then digits_value 16 (drop 2 s)
      else digits_value 10 s)"

fun negate :: "js_number \<Rightarrow> js_number" where
  "negate NaN = NaN"
| "negate (Num i) = Num (- i)"
| "negate Infinity = NegInfinity"
| "negate NegInfinity = Infinity"

definition parseInt :: "string \<Rightarrow> js_number" where
  "parseInt str =
     (let s = dropWhile is_white_space str in
      case s of
        [] \<Rightarrow> NaN
      | c # cs \<Rightarrow>
          if c = CHR ''-'' then negate (strip_prefix cs)
          else if c = CHR ''+'' then strip_prefix cs
          else strip_prefix s)"

subsection \<open>The cards\<close>

text \<open>
  \<open>bestSellingProducts.map(product => ({ id: parseInt(product.id), ... }))\<close>.  The price
  label, which depends on the locale of the browser, is left out.  \<open>variants\<close> is an array
  by its type, so the defaults after \<open>||\<close> for \<open>colors\<close> and \<open>sizes\<close> are never taken.
\<close>

record swatch =
  swatch_name :: string
  swatch_color :: string

record card =
  card_id :: js_number
  card_name :: string
  card_image :: string
  card_rating :: real
  card_colors :: "swatch list"
  card_sizes :: "string list"
  card_category :: string

definition cardColors :: "product \<Rightarrow> swatch list" where
  "cardColors p =
     map (\<lambda>v. \<lparr>swatch_name = or_else (color_name v) ''Color'',
                swatch_color = or_else (color_code v) ''#000000''\<rparr>)
       (filter (\<lambda>v. truthy_opt (color_code v)) (variants p))"

definition cardSizes :: "product \<Rightarrow> string list" where
  "cardSizes p =
     filter_Boolean (map size_label (filter (\<lambda>v. truthy_opt (size_label v)) (variants p)))"

definition toCard :: "product \<Rightarrow> card" where
  "toCard p =
     \<lparr>card_id = parseInt (product_id p),
      card_name = name p,
      card_image = cardImage p,
      card_rating = (if rating p = 0 then 4 else rating p),
      card_colors = cardColors p,
      card_sizes = cardSizes p,
      card_category = (case category p of None \<Rightarrow> ''General''
                       | Some c \<Rightarrow> if truthy (category_name c) then category_name c else ''General'')\<rparr>"

subsection \<open>The handlers\<close>

text \<open>
  What a handler does is the list of its calls to the outside, in order: the callbacks of
  the parent, the router, the cart hook, the toast, the console.
\<close>

record cart_item =
  item_id :: string
  item_name :: string
  item_price :: real
  item_size :: string
  item_image :: string

datatype effect =
    OnQuickView string
  | Navigate string
  | OnAddToCart cart_item
  | AddToDbCart string "string option" nat
  | Toast string string "string option"
  | ConsoleError string thrown

text \<open>
  The surroundings of a handler: whether the parent passed \<open>onQuickView\<close> and
  \<open>onAddToCart\<close>, whether a user is logged in, and the exception with which the cart hook
  rejects, if it does.
\<close>

record env =
  has_onQuickView :: bool
  has_onAddToCart :: bool
  has_user :: bool
  addToDbCart_throws :: "thrown option"

text \<open>\<open>bestSellingProducts.find((p) => parseInt(p.id) === productId)\<close>\<close>

definition find_product :: "product list \<Rightarrow> js_number \<Rightarrow> product option" where
  "find_product bestSellingProducts productId =
     find (\<lambda>p. strict_eq (parseInt (product_id p)) productId) bestSellingProducts"

definition handleQuickView :: "env \<Rightarrow> product list \<Rightarrow> js_number \<Rightarrow> effect list" where
  "handleQuickView e bestSellingProducts productId =
     (case find_product bestSellingProducts productId of
        None \<Rightarrow> []
      | Some p \<Rightarrow>
          if has_onQuickView e then [OnQuickView (product_id p)]
          else [Navigate (''/all-products?product='' @ product_id p)])"

text \<open>\<open>product.variants?.find(v => v.is_active && v.stock_quantity > 0)\<close>\<close>

definition firstVariant :: "product \<Rightarrow> variant option" where
  "firstVariant p = find (\<lambda>v. variant_is_active v \<and> stock_quantity v > 0) (variants p)"

definition variantInfo :: "variant option \<Rightarrow> string" where
  "variantInfo fv =
     (case fv of
        None \<Rightarrow> []
      | Some v \<Rightarrow>
          '' ('' @ or_else (size_label v) ''Standard'' @ '' - '' @
          or_else (color_name v) ''Default'' @ '')'')"

definition handleAddToCart :: "env \<Rightarrow> product list \<Rightarrow> js_number \<Rightarrow> effect list" where
  "handleAddToCart e bestSellingProducts productId =
     (case find_product bestSellingProducts productId of
        None \<Rightarrow> []
      | Some p \<Rightarrow>
          if has_onAddToCart e then
            [OnAddToCart
               \<lparr>item_id = product_id p,
                item_name = name p,
                item_price = price p,
                item_size =
                  or_else (case first_elem (variants p) of None \<Rightarrow> None | Some v \<Rightarrow> size_label v)
                    ''M'',
                item_image = primaryImageUrl p\<rparr>]
          else if \<not> has_user e then
            [Toast ''Login Required'' ''Please login to add items to cart'' (Some ''destructive'')]
          else
            (let fv = firstVariant p;
                 vid = (case fv of None \<Rightarrow> None
                        | Some v \<Rightarrow> if truthy (variant_id v) then Some (variant_id v) else None)
             in AddToDbCart (product_id p) vid 1 #
                (case addToDbCart_throws e of
                   None \<Rightarrow>
                     [Toast ''Added to Cart!'' (name p @ variantInfo fv @ '' added to cart'') None]
                 | Some err \<Rightarrow>
                     [ConsoleError ''Error adding to cart:'' err,
                      Toast ''Error'' ''Error adding to cart. Please try again.''
                        (Some ''destructive'')])))"


section \<open>The product repository (\<open>useProducts\<close>)\<close>

subsection \<open>Queries\<close>

text \<open>
  The hook only builds queries; the backend answers them.  A query is what the chain of
  builder calls has collected.  The argument of \<open>.or(...)\<close>, written in the source in the
  filter syntax of the backend (\<open>"is_hot_sale.eq.true,rating.gte.4"\<close>), is given as the
  conditions it denotes.
\<close>

datatype val = VBool bool | VNum real | VStr string | VNull

datatype cond = Eq string val | Neq string val | Gte string val | Or "cond list"

record query =
  from_table :: string
  select_columns :: string
  filters :: "cond list"
  row_limit :: "nat option"
  order_by :: "(string \<times> bool) option"

definition from_q :: "string \<Rightarrow> query" where
  "from_q t =
     \<lparr>from_table = t, select_columns = [], filters = [], row_limit = None, order_by = None\<rparr>"

definition select_q :: "string \<Rightarrow> query \<Rightarrow> query" where
  "select_q cols q = q\<lparr>select_columns := cols\<rparr>"

definition eq_q :: "string \<Rightarrow> val \<Rightarrow> query \<Rightarrow> query" where
  "eq_q col v q = q\<lparr>filters := filters q @ [Eq col v]\<rparr>"

definition neq_q :: "string \<Rightarrow> val \<Rightarrow> query \<Rightarrow> query" where
  "neq_q col v q = q\<lparr>filters := filters q @ [Neq col v]\<rparr>"

definition or_q :: "cond list \<Rightarrow> query \<Rightarrow> query" where
  "or_q cs q = q\<lparr>filters := filters q @ [Or cs]\<rparr>"

definition limit_q :: "nat \<Rightarrow> query \<Rightarrow> query" where
  "limit_q n q = q\<lparr>row_limit := Some n\<rparr>"

definition order_q :: "string \<Rightarrow> bool \<Rightarrow> query \<Rightarrow> query" where
  "order_q col ascending q = q\<lparr>order_by := Some (col, ascending)\<rparr>"

text \<open>A chain of builder calls, in the order of the source.\<close>

definition chain :: "query \<Rightarrow> (query \<Rightarrow> query) list \<Rightarrow> query" where
  "chain q steps = foldl (\<lambda>acc step. step acc) q steps"

definition product_select :: string where
  "product_select =
     ''*, category:categories(name, slug), images:product_images(*), variants:product_variants(*)''"

definition product_select_inner :: string where
  "product_select_inner =
     ''*, category:categories!inner(name, slug), images:product_images(*), variants:product_variants(*)''"

definition fetchProducts_query :: query where
  "fetchProducts_query =
     chain (from_q ''products'')
       [select_q product_select, eq_q ''is_active'' (VBool True), order_q ''created_at'' False]"

definition getProductBySlug_query :: "string \<Rightarrow> query" where
  "getProductBySlug_query slg =
     chain (from_q ''products'')
       [select_q product_select, eq_q ''slug'' (VStr slg), eq_q ''is_active'' (VBool True)]"

definition getProductsByCategory_query :: "string \<Rightarrow> query" where
  "getProductsByCategory_query categorySlug =
     chain (from_q ''products'')
       [select_q product_select_inner, eq_q ''category.slug'' (VStr categorySlug),
        eq_q ''is_active'' (VBool True), order_q ''created_at'' False]"

definition getHotSaleProducts_query :: query where
  "getHotSaleProducts_query =
     chain (from_q ''products'')
       [select_q product_select, eq_q ''is_hot_sale'' (VBool True),
        eq_q ''is_active'' (VBool True), order_q ''created_at'' False]"

definition getAllProducts_query :: query where
  "getAllProducts_query =
     chain (from_q ''products'')
       [select_q product_select, eq_q ''is_active'' (VBool True), order_q ''created_at'' False]"

definition getRelatedProducts_query :: "string \<Rightarrow> string \<Rightarrow> nat \<Rightarrow> query" where
  "getRelatedProducts_query categoryId excludeProductId lmt =
     chain (from_q ''products'')
       [select_q product_select, eq_q ''category_id'' (VStr categoryId),
        neq_q ''id'' (VStr excludeProductId), eq_q ''is_active'' (VBool True),
        limit_q lmt, order_q ''created_at'' False]"

definition getRecommendedProducts_query :: "nat \<Rightarrow> query" where
  "getRecommendedProducts_query lmt =
     chain (from_q ''products'')
       [select_q product_select, eq_q ''is_active'' (VBool True),
        or_q [Eq ''is_hot_sale'' (VBool True), Gte ''rating'' (VNum 4)],
        limit_q lmt, order_q ''rating'' False]"

definition getProductById_query :: "string \<Rightarrow> query" where
  "getProductById_query pid =
     chain (from_q ''products'')
       [select_q product_select, eq_q ''id'' (VStr pid), eq_q ''is_active'' (VBool True)]"

subsection \<open>Answers of the backend\<close>

text \<open>
  An awaited query resolves to \<open>{ data, error }\<close>, either of which may be \<open>null\<close>, or the
  \<open>await\<close> throws.  A backend answers the queries that end in \<open>.single()\<close> with one row and
  the others with an array of rows.
\<close>

datatype 'a response = Resolved "'a option" "thrown option" | Rejected thrown

record backend =
  select_rows :: "query \<Rightarrow> product list response"
  select_single :: "query \<Rightarrow> product response"

fun failed :: "'a response \<Rightarrow> bool" where
  "failed (Rejected e) = True"
| "failed (Resolved d e) = (e \<noteq> None)"

subsection \<open>The accessors\<close>

text \<open>
  \<open>try { ... } catch (err) { ... }\<close>: the body yields a value or throws, and the handler
  takes what was thrown.  The result of an accessor is what its caller gets: \<open>Inr\<close> a
  returned value, \<open>Inl\<close> an exception that escapes.  The calls of \<open>console.error\<close> in the
  handlers do not touch the result and are left out.
\<close>

definition try_catch :: "thrown + 'a \<Rightarrow> (thrown \<Rightarrow> thrown + 'a) \<Rightarrow> thrown + 'a" where
  "try_catch body handler = (case body of Inl err \<Rightarrow> handler err | Inr v \<Rightarrow> Inr v)"

text \<open>\<open>const { data, error } = await ...; if (error) throw error; return data || []\<close>\<close>

fun rows_or_throw :: "product list response \<Rightarrow> thrown + product list" where
  "rows_or_throw (Rejected err) = Inl err"
| "rows_or_throw (Resolved d (Some err)) = Inl err"
| "rows_or_throw (Resolved None None) = Inr []"
| "rows_or_throw (Resolved (Some rows) None) = Inr rows"

text \<open>\<open>const { data, error } = await ...; if (error) throw error; return data\<close>\<close>

fun row_or_throw :: "product response \<Rightarrow> thrown + product option" where
  "row_or_throw (Rejected err) = Inl err"
| "row_or_throw (Resolved d (Some err)) = Inl err"
| "row_or_throw (Resolved d None) = Inr d"

definition getProductBySlug :: "backend \<Rightarrow> string \<Rightarrow> thrown + product option" where
  "getProductBySlug b slg =
     try_catch (row_or_throw (select_single b (getProductBySlug_query slg))) (\<lambda>err. Inr None)"

definition getProductsByCategory :: "backend \<Rightarrow> string \<Rightarrow> thrown + product list" where
  "getProductsByCategory b categorySlug =
     try_catch (rows_or_throw (select_rows b (getProductsByCategory_query categorySlug)))
       (\<lambda>err. Inr [])"

definition getHotSaleProducts :: "backend \<Rightarrow> thrown + product list" where
  "getHotSaleProducts b =
     try_catch (rows_or_throw (select_rows b getHotSaleProducts_query)) (\<lambda>err. Inr [])"

definition getAllProducts :: "backend \<Rightarrow> thrown + product list" where
  "getAllProducts b =
     try_catch (rows_or_throw (select_rows b getAllProducts_query)) (\<lambda>err. Inr [])"

text \<open>The \<open>limit\<close> parameters have defaults: 4 for related, 6 for recommended products.\<close>

definition getRelatedProducts ::
  "backend \<Rightarrow> string \<Rightarrow> string \<Rightarrow> nat option \<Rightarrow> thrown + product list" where
  "getRelatedProducts b categoryId excludeProductId lmt =
     try_catch
       (rows_or_throw
          (select_rows b
             (getRelatedProducts_query categoryId excludeProductId
                (case lmt of None \<Rightarrow> 4 | Some n \<Rightarrow> n))))
       (\<lambda>err. Inr [])"

definition getRecommendedProducts :: "backend \<Rightarrow> nat option \<Rightarrow> thrown + product list" where
  "getRecommendedProducts b lmt =
     try_catch
       (rows_or_throw
          (select_rows b (getRecommendedProducts_query (case lmt of None \<Rightarrow> 6 | Some n \<Rightarrow> n))))
       (\<lambda>err. Inr [])"

definition getProductById :: "backend \<Rightarrow> string \<Rightarrow> thrown + product option" where
  "getProductById b pid =
     try_catch (row_or_throw (select_single b (getProductById_query pid))) (\<lambda>err. Inr None)"


subsection \<open>The state of the hook and \<open>fetchProducts\<close>\<close>

record hook_state =
  hook_products :: "product list"
  loading :: bool
  hook_error :: "string option"

text \<open>
  The sample products of the \<open>catch\<close> block.  Their timestamps are six readings of the
  clock, \<open>new Date().toISOString()\<close>, given here as \<open>now 0\<close> to \<open>now 5\<close>.
\<close>

definition mockProducts :: "(nat \<Rightarrow> string) \<Rightarrow> product list" where
  "mockProducts now =
     [\<lparr>product_id = ''1'',
       name = ''Men's Round Neck T-Shirt - Premium Cotton'',
       description = Some ''Premium quality round neck t-shirt made from 100% cotton'',
       category_id = Some ''1'',
       subcategory = Some ''Round Neck T-Shirts'',
       price = 399,
       original_price = Some 499,
       sku = Some ''MEN-RN-TSH-001'',
       slug = ''mens-round-neck-tshirt-premium'',
       is_active = True,
       is_hot_sale = True,
       rating = 5,
       review_count = 45,
       created_at = now 0,
       updated_at = now 1,
       category = Some \<lparr>category_name = ''Men'', category_slug = ''men''\<rparr>,
       images =
         [\<lparr>image_id = ''1'', image_url = ''/placeholder.svg'',
           alt_text = Some ''Round Neck T-Shirt'', is_primary = True, sort_order = 1\<rparr>],
       variants =
         [\<lparr>variant_id = ''1'', size_label = Some ''M'', color_name = Some ''Black'',
           color_code = Some ''#000000'', stock_quantity = 50, price_adjustment = 0,
           variant_is_active = True\<rparr>]\<rparr>,
      \<lparr>product_id = ''2'',
       name = ''Women's 3/4 Leggings - Comfort Fit'',
       description =
         Some ''Comfortable 3/4 length leggings perfect for workouts and casual wear'',
       category_id = Some ''2'',
       subcategory = Some ''3/4 Leggings'',
       price = 449,
       original_price = Some 549,
       sku = Some ''WOM-34-LEG-001'',
       slug = ''womens-3-4-leggings-comfort'',
       is_active = True,
       is_hot_sale = True,
       rating = 4,
       review_count = 28,
       created_at = now 2,
       updated_at = now 3,
       category = Some \<lparr>category_name = ''Women'', category_slug = ''women''\<rparr>,
       images =
         [\<lparr>image_id = ''2'', image_url = ''/placeholder.svg'',
           alt_text = Some ''3/4 Leggings'', is_primary = True, sort_order = 1\<rparr>],
       variants =
         [\<lparr>variant_id = ''2'', size_label = Some ''M'', color_name = Some ''Navy'',
           color_code = Some ''#000080'', stock_quantity = 30, price_adjustment = 0,
           variant_is_active = True\<rparr>]\<rparr>,
      \<lparr>product_id = ''3'',
       name = ''Men's V-Neck T-Shirt - Classic Style'',
       description = Some ''Stylish V-neck t-shirt crafted from premium cotton blend'',
       category_id = Some ''1'',
       subcategory = Some ''V-Neck T-Shirts'',
       price = 449,
       original_price = Some 549,
       sku = Some ''MEN-VN-TSH-002'',
       slug = ''mens-v-neck-tshirt-classic'',
       is_active = True,
       is_hot_sale = False,
       rating = 4,
       review_count = 32,
       created_at = now 4,
       updated_at = now 5,
       category = Some \<lparr>category_name = ''Men'', category_slug = ''men''\<rparr>,
       images =
         [\<lparr>image_id = ''3'', image_url = ''/placeholder.svg'',
           alt_text = Some ''V-Neck T-Shirt'', is_primary = True, sort_order = 1\<rparr>],
       variants =
         [\<lparr>variant_id = ''3'', size_label = Some ''L'', color_name = Some ''Purple'',
           color_code = Some ''#7C3AED'', stock_quantity = 25, price_adjustment = 0,
           variant_is_active = True\<rparr>]\<rparr>]"

text \<open>
  \<open>err instanceof Error ? err.message : "An error occurred"\<close>
\<close>

definition errorMessage :: "thrown \<Rightarrow> string" where
  "errorMessage err = (if instanceof_Error err then message err else ''An error occurred'')"

text \<open>
  The \<open>try\<close> block of \<open>fetchProducts\<close>: the state it leaves, and what it throws, if it
  does.  The version of the hook with the sample products also clears \<open>error\<close> after a
  successful fetch.
\<close>

definition fetchProducts_try :: "backend \<Rightarrow> hook_state \<Rightarrow> hook_state \<times> thrown option" where
  "fetchProducts_try b s =
     (let s1 = s\<lparr>loading := True\<rparr> in
      case rows_or_throw (select_rows b fetchProducts_query) of
        Inl err \<Rightarrow> (s1, Some err)
      | Inr rows \<Rightarrow> (s1\<lparr>hook_products := rows, hook_error := None\<rparr>, None))"

text \<open>
  \<open>fetchProducts\<close> of the hook with the fallback (\<open>catch\<close>: \<open>setError\<close>, then
  \<open>setProducts(mockProducts)\<close>; \<open>finally\<close>: \<open>setLoading(false)\<close>).
\<close>

definition fetchProducts :: "(nat \<Rightarrow> string) \<Rightarrow> backend \<Rightarrow> hook_state \<Rightarrow> thrown + hook_state" where
  "fetchProducts now b s =
     (case fetchProducts_try b s of
        (s1, None) \<Rightarrow> Inr (s1\<lparr>loading := False\<rparr>)
      | (s1, Some err) \<Rightarrow>
          Inr (s1\<lparr>hook_error := Some (errorMessage err),
                  hook_products := mockProducts now,
                  loading := False\<rparr>))"

text \<open>
  The repository holds a second version of the hook, whose accessors are the same and
  whose \<open>fetchProducts\<close> has no sample products: its \<open>try\<close> block does not touch \<open>error\<close>,
  and its \<open>catch\<close> block only calls \<open>setError\<close>.
\<close>

definition fetchProducts_try_plain :: "backend \<Rightarrow> hook_state \<Rightarrow> hook_state \<times> thrown option" where
  "fetchProducts_try_plain b s =
     (let s1 = s\<lparr>loading := True\<rparr> in
      case rows_or_throw (select_rows b fetchProducts_query) of
        Inl err \<Rightarrow> (s1, Some err)
      | Inr rows \<Rightarrow> (s1\<lparr>hook_products := rows\<rparr>, None))"

definition fetchProducts_plain :: "backend \<Rightarrow> hook_state \<Rightarrow> thrown + hook_state" where
  "fetchProducts_plain b s =
     (case fetchProducts_try_plain b s of
        (s1, None) \<Rightarrow> Inr (s1\<lparr>loading := False\<rparr>)
      | (s1, Some err) \<Rightarrow> Inr (s1\<lparr>hook_error := Some (errorMessage err), loading := False\<rparr>))"

text \<open>The state with which \<open>useProducts\<close> starts.\<close>

definition initial_hook_state :: hook_state where
  "initial_hook_state = \<lparr>hook_products = [], loading = True, hook_error = None\<rparr>"

subsection \<open>A backend that answers from a table\<close>

text \<open>
  The meaning that the backend gives to a query, on a table of product rows with their
  category, images and variants joined in: the rows that satisfy every filter, ordered by
  the order column, cut at the limit.  A comparison with a \<open>null\<close> column is not satisfied.
  Rows that are equal in the order column keep their order in the table.
\<close>

definition column :: "string \<Rightarrow> product \<Rightarrow> val" where
  "column col p =
     (if col = ''id'' then VStr (product_id p)
      else if col = ''slug'' then VStr (slug p)
      else if col = ''is_active'' then VBool (is_active p)
      else if col = ''is_hot_sale'' then VBool (is_hot_sale p)
      else if col = ''rating'' then VNum (rating p)
      else if col = ''price'' then VNum (price p)
      else if col = ''review_count'' then VNum (review_count p)
      else if col = ''created_at'' then VStr (created_at p)
      else if col = ''updated_at'' then VStr (updated_at p)
      else if col = ''category_id'' then (case category_id p of None \<Rightarrow> VNull | Some c \<Rightarrow> VStr c)
      else if col = ''category.slug'' then
        (case category p of None \<Rightarrow> VNull | Some c \<Rightarrow> VStr (category_slug c))
      else VNull)"

fun val_ge :: "val \<Rightarrow> val \<Rightarrow> bool" where
  "val_ge (VNum a) (VNum b) = (b \<le> a)"
| "val_ge (VStr a) (VStr b) = (b \<le> a)"
| "val_ge (VBool a) (VBool b) = (b \<le> a)"
| "val_ge _ _ = False"

fun holds :: "product \<Rightarrow> cond \<Rightarrow> bool" where
  "holds p (Eq col v) = (column col p \<noteq> VNull \<and> column col p = v)"
| "holds p (Neq col v) = (column col p \<noteq> VNull \<and> v \<noteq> VNull \<and> column col p \<noteq> v)"
| "holds p (Gte col v) = val_ge (column col p) v"
| "holds p (Or cs) = (\<exists>c \<in> set cs. holds p c)"

text \<open>The position of a value in the order of a column: by kind, then by value.\<close>

fun rank :: "val \<Rightarrow> nat \<times> real \<times> string" where
  "rank (VBool b) = (0, of_bool b, [])"
| "rank (VNum r) = (1, r, [])"
| "rank (VStr s) = (2, 0, s)"
| "rank VNull = (3, 0, [])"

definition order_rows :: "(string \<times> bool) option \<Rightarrow> product list \<Rightarrow> product list" where
  "order_rows ord rows =
     (case ord of
        None \<Rightarrow> rows
      | Some (col, ascending) \<Rightarrow>
          if ascending then sort_key (\<lambda>p. rank (column col p)) rows
          else rev (sort_key (\<lambda>p. rank (column col p)) (rev rows)))"

definition limit_rows :: "nat option \<Rightarrow> product list \<Rightarrow> product list" where
  "limit_rows lmt rows = (case lmt of None \<Rightarrow> rows | Some n \<Rightarrow> take n rows)"

definition run_query :: "query \<Rightarrow> product list \<Rightarrow> product list" where
  "run_query q tbl =
     limit_rows (row_limit q)
       (order_rows (order_by q) (filter (\<lambda>p. \<forall>c \<in> set (filters q). holds p c) tbl))"

text \<open>
  A query that ends in \<open>.single()\<close> is an error unless exactly one row answers it.
\<close>

definition table_backend :: "product list \<Rightarrow> backend" where
  "table_backend tbl =
     \<lparr>select_rows = (\<lambda>q. Resolved (Some (run_query q tbl)) None),
      select_single =
        (\<lambda>q. case run_query q tbl of
                [row] \<Rightarrow> Resolved (Some row) None
              | _ \<Rightarrow> Resolved None (Some (OtherValue ''PGRST116'')))\<rparr>"

section \<open>The filter in the words of the specification\<close>

text \<open>
  ``\<open>hay\<close> contains \<open>tok\<close> as a case-insensitive substring'': after lowering the case of
  both, \<open>tok\<close> stands somewhere inside \<open>hay\<close>.
\<close>

definition contains_ci :: "string \<Rightarrow> string \<Rightarrow> bool" where
  "contains_ci hay tok = (\<exists>before after. toLowerCase hay = before @ toLowerCase tok @ after)"

section \<open>Recommended products in the words of the specification\<close>

text \<open>\<open>is_active = true AND (is_hot_sale = true OR rating >= 4)\<close>\<close>

definition eligible :: "product \<Rightarrow> bool" where
  "eligible p = (is_active p \<and> (is_hot_sale p \<or> 4 \<le> rating p))"

section \<open>First-seen order\<close>

text \<open>
  The elements of a list at the positions where they occur for the first time, in the
  order of these positions.
\<close>

definition first_seen :: "'a list \<Rightarrow> 'a list" where
  "first_seen xs =
     map (\<lambda>i. xs ! i) (filter (\<lambda>i. xs ! i \<notin> set (take i xs)) [0..<length xs])"

section \<open>Sample inputs\<close>

definition sample_product :: "string \<Rightarrow> string \<Rightarrow> product" where
  "sample_product pid nm =
     \<lparr>product_id = pid, name = nm, description = None, category_id = None,
      subcategory = None, price = 100, original_price = None, sku = None, slug = pid,
      is_active = True, is_hot_sale = False, rating = 0, review_count = 0,
      created_at = ''2024-01-01T00:00:00Z'', updated_at = ''2024-01-01T00:00:00Z'',
      category = None, images = [], variants = []\<rparr>"

text \<open>A product without description.\<close>

definition polo :: product where
  "polo = sample_product ''p1'' ''Polo''"

text \<open>A product whose second image is the primary one, and one whose primary image has an empty url.\<close>

definition front_image :: image where
  "front_image =
     \<lparr>image_id = ''i1'', image_url = ''/front.jpg'', alt_text = None, is_primary = False,
      sort_order = 1\<rparr>"

definition main_image :: image where
  "main_image =
     \<lparr>image_id = ''i2'', image_url = ''/main.jpg'', alt_text = None, is_primary = True,
      sort_order = 2\<rparr>"

definition blank_image :: image where
  "blank_image =
     \<lparr>image_id = ''i3'', image_url = [], alt_text = None, is_primary = True, sort_order = 1\<rparr>"

definition gallery :: product where
  "gallery = polo\<lparr>images := [front_image, main_image]\<rparr>"

definition plain_gallery :: product where
  "plain_gallery = polo\<lparr>images := [front_image, front_image\<lparr>image_url := ''/back.jpg''\<rparr>]\<rparr>"

definition blank_gallery :: product where
  "blank_gallery = polo\<lparr>images := [blank_image]\<rparr>"

text \<open>Products whose ids are not numbers, or parse to the same number.\<close>

definition uuid_product :: product where
  "uuid_product = sample_product ''b7e2-41aa'' ''Track Pants''"

definition seven :: product where
  "seven = sample_product ''7'' ''Leggings''"

definition seven_x :: product where
  "seven_x = sample_product ''7x'' ''Shorts''"

definition parent_env :: env where
  "parent_env =
     \<lparr>has_onQuickView = True, has_onAddToCart = True, has_user = True,
      addToDbCart_throws = None\<rparr>"

definition own_env :: env where
  "own_env =
     \<lparr>has_onQuickView = False, has_onAddToCart = False, has_user = True,
      addToDbCart_throws = None\<rparr>"

text \<open>A backend that is out of reach, and a clock.\<close>

definition offline_backend :: backend where
  "offline_backend =
     \<lparr>select_rows = (\<lambda>q. Rejected (ErrorInstance ''Failed to fetch'')),
      select_single = (\<lambda>q. Resolved None (Some (OtherValue ''PGRST301'')))\<rparr>"

definition clock :: "nat \<Rightarrow> string" where
  "clock i = ''2024-05-01T10:00:00.000Z''"

text \<open>
  The catalog of the recommendation scenario: a promoted product rated 5, and two that
  are not promoted, rated 3 and 4.
\<close>

definition hot_five :: product where
  "hot_five = (sample_product ''a'' ''Round Neck'')\<lparr>is_hot_sale := True, rating := 5\<rparr>"

definition plain_three :: product where
  "plain_three = (sample_product ''b'' ''V-Neck'')\<lparr>rating := 3\<rparr>"

definition plain_four :: product where
  "plain_four = (sample_product ''c'' ''Track Pants'')\<lparr>rating := 4\<rparr>"

text \<open>
  A product in two sizes of black and one of navy, with one variant that has neither size
  nor colour and one that has them empty.
\<close>

definition mk_variant :: "string \<Rightarrow> string option \<Rightarrow> string option \<Rightarrow> string option \<Rightarrow> variant" where
  "mk_variant vid sz cn cc =
     \<lparr>variant_id = vid, size_label = sz, color_name = cn, color_code = cc,
      stock_quantity = 5, price_adjustment = 0, variant_is_active = True\<rparr>"

definition wardrobe :: product where
  "wardrobe =
     polo\<lparr>variants :=
       [mk_variant ''v1'' (Some ''M'') (Some ''Black'') (Some ''#000000''),
        mk_variant ''v2'' None None None,
        mk_variant ''v3'' (Some ''L'') (Some ''Black'') (Some ''#000000''),
        mk_variant ''v4'' (Some []) (Some []) (Some ''#ffffff''),
        mk_variant ''v5'' (Some ''M'') (Some ''Navy'') (Some ''#000080'')]\<rparr>"

text \<open>A page that has fetched two products and shows both.\<close>

definition tee :: product where
  "tee = (sample_product ''p2'' ''Round Neck Tee'')\<lparr>description := Some ''Cotton tee''\<rparr>"

definition fetched :: "product list" where
  "fetched = [polo, tee]"

definition page :: page_state where
  "page =
     \<lparr>store = [fetched], products_ref = 0, filteredProducts_ref = 0,
      selectedFilter = ''all''\<rparr>"


section \<open>Category mapping\<close>

lemma getCategorySlug_keys:
  "getCategorySlug ''men'' = Str ''mens-t-shirts''"
  "getCategorySlug ''men-tshirts'' = Str ''mens-t-shirts''"
  "getCategorySlug ''men-bottomwear'' = Str ''mens-bottomwear''"
  "getCategorySlug ''women'' = Str ''womens-leggings''"
  "getCategorySlug ''women-leggings'' = Str ''womens-leggings''"
  "getCategorySlug ''shapewear'' = Str ''saree-shapewear''"
  "getCategorySlug ''nightwear'' = Str ''night-wear''"
  by (simp_all add: getCategorySlug_def get_property_def categoryMap_def js_or_def truthy_def)

lemma getCategorySlug_table:
  "(k, v) \<in> set categoryMap \<Longrightarrow> getCategorySlug k = Str v"
  by (auto simp: getCategorySlug_def get_property_def categoryMap_def js_or_def truthy_def)

lemma getCategorySlug_other:
  "cat \<notin> fst ` set categoryMap \<Longrightarrow> cat \<notin> set Object_prototype_keys \<Longrightarrow>
   getCategorySlug cat = Str cat"
  by (auto simp: getCategorySlug_def get_property_def js_or_def
        map_of_eq_None_iff[THEN iffD2] split: option.splits)

text \<open>
  Claim C7.  For every key of the category table \<open>getCategorySlug\<close> returns the documented
  slug, and for every string that is not a key it returns the string unchanged.  The first
  half holds (\<open>getCategorySlug_keys\<close>, \<open>getCategorySlug_table\<close>).  The second half holds for
  the strings that name no member of \<open>Object.prototype\<close> (\<open>getCategorySlug_other\<close>), and
  fails for those that do: \<open>"constructor"\<close> is no key of the table, yet the property read
  finds the inherited constructor, which is truthy, and the function, declared to return
  a string, returns that instead of \<open>"constructor"\<close>.
\<close>

theorem getCategorySlug_constructor:
  "getCategorySlug ''constructor'' = Builtin ''constructor'' \<and>
   getCategorySlug ''constructor'' \<noteq> Str ''constructor'' \<and>
   ''constructor'' \<notin> fst ` set categoryMap"
  by (simp add: getCategorySlug_def get_property_def categoryMap_def js_or_def
        Object_prototype_keys_def)

section \<open>The subcategory filter\<close>

lemma includes_str_sublist: "includes_str hay needle = sublist needle hay"
  by (induction hay) (auto simp: sublist_Cons_right)

lemma includes_str_contains_ci:
  "includes_str (toLowerCase hay) (toLowerCase tok) = contains_ci hay tok"
  by (simp add: includes_str_sublist sublist_def contains_ci_def)

lemma matches_subcategory_spec:
  "matches_subcategory tok p =
     (contains_ci (name p) tok \<or> (\<exists>d. description p = Some d \<and> contains_ci d tok))"
  by (simp add: matches_subcategory_def includes_str_contains_ci split: option.splits)

text \<open>
  The effect that follows the query parameter: for a token that is not empty and not
  \<open>all\<close> in any capitalisation, it keeps exactly the products whose name or description
  contains the token, and a product without description is kept only for its name.
\<close>

lemma subcategoryFilter_spec:
  assumes "tok \<noteq> []" and "toLowerCase tok \<noteq> ''all''"
  shows "subcategoryFilter (Some tok) ps =
     filter (\<lambda>p. contains_ci (name p) tok \<or>
                  (\<exists>d. description p = Some d \<and> contains_ci d tok)) ps"
proof -
  have "toLowerCase ''all'' = ''all''"
    by code_simp
  with assms(2) have "tok \<noteq> ''all''"
    by auto
  moreover have "matches_subcategory tok =
     (\<lambda>p. contains_ci (name p) tok \<or> (\<exists>d. description p = Some d \<and> contains_ci d tok))"
    by (rule ext) (rule matches_subcategory_spec)
  ultimately show ?thesis
    using assms(1) by (simp add: subcategoryFilter_def truthy_def)
qed

text \<open>
  Claim C2.  For every product list and every token that is not empty and not \<open>all\<close>, the
  subcategory filter returns the products whose name or description contains the token
  without regard to case, and a \<open>null\<close> description never matches and never causes a
  failure.  \<open>handleFilterClick\<close> breaks the last part: on the one product \<open>Polo\<close>, which
  has no description, the filter \<open>Shorts\<close> does not match the name, the description is
  read without the optional chain, and the call throws a \<open>TypeError\<close> instead of returning
  the empty list.
\<close>

theorem filterClick_null_description:
  "description polo = None \<and>
   filterClick ''Shorts'' [polo] = Inl null_toLowerCase \<and>
   snd (handleFilterClick ''Shorts'' page) = Some null_toLowerCase \<and>
   subcategoryFilter (Some ''Shorts'') [polo] = []"
  by code_simp

lemma filter_throwing_Inr_filter:
  "filter_throwing f xs = Inr ys \<Longrightarrow> ys = filter (\<lambda>x. f x = Inr True) xs"
  by (induction xs arbitrary: ys) (auto split: sum.splits if_splits)

lemma filter_throwing_all_true:
  "\<forall>x \<in> set xs. f x = Inr True \<Longrightarrow> filter_throwing f xs = Inr xs"
  by (induction xs) auto

text \<open>Where \<open>handleFilterClick\<close> returns a list, filtering that list again returns it.\<close>

lemma filterClick_idempotent:
  "filterClick flt ps = Inr qs \<Longrightarrow> filterClick flt qs = Inr qs"
  by (auto simp: filterClick_def dest!: filter_throwing_Inr_filter
        intro!: filter_throwing_all_true)

text \<open>
  Claim C9.  The subcategory filter is idempotent: for every product list and every token
  (absent, empty, \<open>all\<close> or any other), filtering the filtered list by the same token
  gives the filtered list again, with the same elements in the same order.
\<close>

theorem subcategoryFilter_idempotent:
  "subcategoryFilter tok (subcategoryFilter tok ps) = subcategoryFilter tok ps"
  by (simp add: subcategoryFilter_def split: option.splits)


section \<open>Representative image\<close>

lemma or_else_Some: "or_else (Some u) d = (if u = [] then d else u)"
  by (simp add: truthy_def)

lemma find_first_primary:
  "(\<forall>i \<in> set before. \<not> P i) \<Longrightarrow> P img \<Longrightarrow> find P (before @ img # after) = Some img"
  by (induction before) auto

lemma find_none_primary: "(\<forall>i \<in> set xs. \<not> P i) \<Longrightarrow> find P xs = None"
  by (induction xs) auto

text \<open>
  Claim C4, as the code has it.  On the detail page, and in the item that \<open>BestSelling\<close>
  hands to \<open>onAddToCart\<close>, the representative image is the url of the first image whose
  \<open>is_primary\<close> flag is set, wherever that image stands in the collection; with images but
  no primary one it is the url of the first image; with no image it is the placeholder.
  The product card of the listing page and of \<open>BestSelling\<close> takes the first image in
  collection order whatever the flags say, and the placeholder for a product without
  images.  In every case an empty url gives the placeholder.
\<close>

theorem primaryImageUrl_selection:
  "(images p = before @ img # after \<and> is_primary img \<and> (\<forall>i \<in> set before. \<not> is_primary i) \<longrightarrow>
      primaryImageUrl p = (if image_url img = [] then placeholder else image_url img)) \<and>
   (images p = fst_img # rest \<and> (\<forall>i \<in> set (images p). \<not> is_primary i) \<longrightarrow>
      primaryImageUrl p = (if image_url fst_img = [] then placeholder else image_url fst_img)) \<and>
   (images p = [] \<longrightarrow> primaryImageUrl p = placeholder \<and> cardImage p = placeholder) \<and>
   (images p = fst_img # rest \<longrightarrow>
      cardImage p = (if image_url fst_img = [] then placeholder else image_url fst_img))"
proof (intro conjI impI)
  assume "images p = before @ img # after \<and> is_primary img \<and> (\<forall>i \<in> set before. \<not> is_primary i)"
  then show "primaryImageUrl p = (if image_url img = [] then placeholder else image_url img)"
    by (simp add: primaryImageUrl_def primaryImage_def find_first_primary truthy_def)
next
  assume a: "images p = fst_img # rest \<and> (\<forall>i \<in> set (images p). \<not> is_primary i)"
  then have "find is_primary (images p) = None" by (intro find_none_primary) simp
  with a show "primaryImageUrl p = (if image_url fst_img = [] then placeholder else image_url fst_img)"
    by (simp add: primaryImageUrl_def primaryImage_def first_elem_def truthy_def)
next
  assume "images p = []"
  then show "primaryImageUrl p = placeholder"
    by (simp add: primaryImageUrl_def primaryImage_def first_elem_def)
next
  assume "images p = []"
  then show "cardImage p = placeholder"
    by (simp add: cardImage_def first_elem_def)
next
  assume "images p = fst_img # rest"
  then show "cardImage p = (if image_url fst_img = [] then placeholder else image_url fst_img)"
    by (simp add: cardImage_def first_elem_def truthy_def)
qed

theorem primaryImageUrl_selection_witness:
  "primaryImageUrl gallery = ''/main.jpg'' \<and> primaryImageUrl plain_gallery = ''/front.jpg'' \<and>
   primaryImageUrl polo = ''/placeholder.svg'' \<and> cardImage polo = ''/placeholder.svg'' \<and>
   cardImage gallery = ''/front.jpg''"
  using primaryImageUrl_selection [where p = gallery and before = "[front_image]" and img = main_image
      and after = "[]" and fst_img = front_image and rest = "[main_image]"]
    primaryImageUrl_selection [where p = plain_gallery and before = "[]" and img = main_image
      and after = "[]" and fst_img = front_image
      and rest = "[front_image\<lparr>image_url := ''/back.jpg''\<rparr>]"]
    primaryImageUrl_selection [where p = polo and before = "[]" and img = main_image
      and after = "[]" and fst_img = front_image and rest = "[]"]
  by (simp add: gallery_def plain_gallery_def polo_def sample_product_def front_image_def main_image_def placeholder_def)

text \<open>
  The claim as written fails at two inputs.  The product card shows the first image of
  \<open>gallery\<close> although the second one is primary; and for a primary image with an empty url
  the detail page shows the placeholder, not that url.
\<close>

theorem cardImage_ignores_primary:
  "is_primary main_image \<and> images gallery = [front_image, main_image] \<and>
   cardImage gallery = ''/front.jpg'' \<and> cardImage gallery \<noteq> image_url main_image \<and>
   is_primary blank_image \<and> images blank_gallery = [blank_image] \<and>
   primaryImageUrl blank_gallery = ''/placeholder.svg'' \<and>
   primaryImageUrl blank_gallery \<noteq> image_url blank_image"
  by (simp add: gallery_def blank_gallery_def polo_def sample_product_def front_image_def main_image_def
       blank_image_def cardImage_def primaryImageUrl_def primaryImage_def first_elem_def truthy_def placeholder_def)

section \<open>Lookup by card number in \<open>BestSelling\<close>\<close>

lemma strict_eq_NaN [simp]: "strict_eq NaN n = False" "strict_eq n NaN = False"
  by (cases n, simp_all)+

lemma strict_eq_iff: "strict_eq a b = (a = b \<and> a \<noteq> NaN)"
  by (cases a; cases b) simp_all

lemma find_product_NaN: "find_product ps NaN = None"
  by (induction ps) (simp_all add: find_product_def)

lemma find_hit:
  "(\<forall>x \<in> set before. \<not> P x) \<Longrightarrow> P p \<Longrightarrow> find P (before @ p # after) = Some p"
  by (induction before) auto

lemma find_Some_hit: "find P xs = Some x \<Longrightarrow> x \<in> set xs \<and> P x"
  by (induction xs) (auto split: if_splits)

lemma find_product_Some:
  "find_product ps k = Some r \<Longrightarrow> r \<in> set ps \<and> strict_eq (parseInt (product_id r)) k"
  unfolding find_product_def by (rule find_Some_hit)

lemma find_product_single:
  "strict_eq (parseInt (product_id r)) k \<Longrightarrow> find_product [r] k = Some r"
  by (simp add: find_product_def)

text \<open>
  Some ids and what they parse to: a number with a tail, an id without leading digit, an
  id that starts with a digit, a signed hexadecimal number after a blank, a number after
  a no-break space, and two numbers above \<open>2^53\<close> that are one double.
\<close>

lemma parseInt_examples:
  "parseInt ''7'' = Num 7"
  "parseInt ''7x'' = Num 7"
  "parseInt ''b7e2-41aa'' = NaN"
  "parseInt ''3f2b'' = Num 3"
  "parseInt '' -0x1F'' = Num (- 31)"
  "parseInt [char_of (160 :: nat), CHR ''7''] = Num 7"
  "parseInt ''9007199254740993'' = Num 9007199254740992"
  "parseInt ''9007199254740992'' = Num 9007199254740992"
  by code_simp+

text \<open>
  Claim C10.  The quick-view and add-to-cart handlers of \<open>BestSelling\<close> locate the product
  by comparing \<open>parseInt(p.id)\<close> with the number of the card: the lookup returns the first
  product of the list whose parsed id is strictly equal to the number, and only such a
  product; the handlers act on the product found (quick view calls the parent or
  navigates with its id, add-to-cart hands its id, name and price to the parent or to the
  cart) and do nothing when none is found.  For a product whose id does not parse to a
  number the card carries \<open>NaN\<close>, the lookup finds nothing in any list, and both handlers
  do nothing.  Two products whose ids parse to the same number have the same card number
  and are indistinguishable to the lookup and to the handlers: the cards of both find
  the first product of the list with that number.  \<open>"7"\<close> and \<open>"7x"\<close> are such ids.
\<close>

theorem BestSelling_lookup_by_parseInt:
  "(find_product ps k = Some r \<longrightarrow>
      r \<in> set ps \<and> strict_eq (parseInt (product_id r)) k) \<and>
   (strict_eq (parseInt (product_id p)) k \<and>
    (\<forall>x \<in> set before. \<not> strict_eq (parseInt (product_id x)) k) \<longrightarrow>
      find_product (before @ p # after) k = Some p) \<and>
   (find_product ps k = Some r \<longrightarrow>
      handleQuickView e ps k =
        (if has_onQuickView e then [OnQuickView (product_id r)]
         else [Navigate (''/all-products?product='' @ product_id r)]) \<and>
      handleAddToCart e ps k = handleAddToCart e [r] k \<and>
      handleAddToCart e ps k \<noteq> []) \<and>
   (find_product ps k = Some r \<and> has_onAddToCart e \<longrightarrow>
      (\<exists>item. handleAddToCart e ps k = [OnAddToCart item] \<and> item_id item = product_id r \<and>
         item_name item = name r \<and> item_price item = price r)) \<and>
   (find_product ps k = Some r \<and> \<not> has_onAddToCart e \<and> has_user e \<longrightarrow>
      (\<exists>vid rest. handleAddToCart e ps k = AddToDbCart (product_id r) vid 1 # rest)) \<and>
   (find_product ps k = None \<longrightarrow> handleQuickView e ps k = [] \<and> handleAddToCart e ps k = []) \<and>
   (parseInt (product_id p) = NaN \<longrightarrow>
      find_product ps (card_id (toCard p)) = None \<and>
      handleQuickView e ps (card_id (toCard p)) = [] \<and>
      handleAddToCart e ps (card_id (toCard p)) = []) \<and>
   (parseInt (product_id p) = parseInt (product_id q) \<longrightarrow>
      find_product ps (card_id (toCard p)) = find_product ps (card_id (toCard q)) \<and>
      handleQuickView e ps (card_id (toCard p)) = handleQuickView e ps (card_id (toCard q)) \<and>
      handleAddToCart e ps (card_id (toCard p)) = handleAddToCart e ps (card_id (toCard q))) \<and>
   (parseInt (product_id p) = parseInt (product_id q) \<and> parseInt (product_id p) \<noteq> NaN \<and>
    (\<forall>x \<in> set before. parseInt (product_id x) \<noteq> parseInt (product_id p)) \<longrightarrow>
      find_product (before @ p # after) (card_id (toCard q)) = Some p \<and>
      find_product (before @ p # after) (card_id (toCard p)) = Some p) \<and>
   parseInt ''7'' = Num 7 \<and> parseInt ''7x'' = Num 7"
proof (intro conjI impI)
  assume "find_product ps k = Some r"
  then show "r \<in> set ps" "strict_eq (parseInt (product_id r)) k"
    by (simp_all add: find_product_Some)
next
  assume "strict_eq (parseInt (product_id p)) k \<and>
    (\<forall>x \<in> set before. \<not> strict_eq (parseInt (product_id x)) k)"
  then show "find_product (before @ p # after) k = Some p"
    unfolding find_product_def by (intro find_hit) simp_all
next
  assume f: "find_product ps k = Some r"
  then show "handleQuickView e ps k =
        (if has_onQuickView e then [OnQuickView (product_id r)]
         else [Navigate (''/all-products?product='' @ product_id r)])"
    by (simp add: handleQuickView_def)
  from f have "find_product [r] k = Some r"
    by (intro find_product_single) (simp add: find_product_Some)
  with f show "handleAddToCart e ps k = handleAddToCart e [r] k"
    by (simp add: handleAddToCart_def)
  from f show "handleAddToCart e ps k \<noteq> []"
    by (simp add: handleAddToCart_def Let_def)
next
  assume "find_product ps k = Some r \<and> has_onAddToCart e"
  then show "\<exists>item. handleAddToCart e ps k = [OnAddToCart item] \<and> item_id item = product_id r \<and>
         item_name item = name r \<and> item_price item = price r"
    by (simp add: handleAddToCart_def)
next
  assume "find_product ps k = Some r \<and> \<not> has_onAddToCart e \<and> has_user e"
  then show "\<exists>vid rest. handleAddToCart e ps k = AddToDbCart (product_id r) vid 1 # rest"
    by (simp add: handleAddToCart_def Let_def)
next
  assume "find_product ps k = None"
  then show "handleQuickView e ps k = []" "handleAddToCart e ps k = []"
    by (simp_all add: handleQuickView_def handleAddToCart_def)
next
  assume "parseInt (product_id p) = NaN"
  then have c: "card_id (toCard p) = NaN" by (simp add: toCard_def)
  show "find_product ps (card_id (toCard p)) = None" by (simp add: c find_product_NaN)
  show "handleQuickView e ps (card_id (toCard p)) = []"
    by (simp add: c handleQuickView_def find_product_NaN)
  show "handleAddToCart e ps (card_id (toCard p)) = []"
    by (simp add: c handleAddToCart_def find_product_NaN)
next
  assume "parseInt (product_id p) = parseInt (product_id q)"
  then have c: "card_id (toCard p) = card_id (toCard q)" by (simp add: toCard_def)
  show "find_product ps (card_id (toCard p)) = find_product ps (card_id (toCard q))"
    by (simp add: c)
  show "handleQuickView e ps (card_id (toCard p)) = handleQuickView e ps (card_id (toCard q))"
    by (simp add: c)
  show "handleAddToCart e ps (card_id (toCard p)) = handleAddToCart e ps (card_id (toCard q))"
    by (simp add: c)
next
  assume a: "parseInt (product_id p) = parseInt (product_id q) \<and> parseInt (product_id p) \<noteq> NaN \<and>
    (\<forall>x \<in> set before. parseInt (product_id x) \<noteq> parseInt (product_id p))"
  then have c: "card_id (toCard q) = parseInt (product_id p)" "card_id (toCard p) = parseInt (product_id p)"
    by (auto simp: toCard_def)
  from a have hit: "strict_eq (parseInt (product_id p)) (parseInt (product_id p))"
    by (auto simp: strict_eq_iff)
  from a have miss: "\<forall>x \<in> set before. \<not> strict_eq (parseInt (product_id x)) (parseInt (product_id p))"
    by (auto simp: strict_eq_iff)
  from hit miss have "find_product (before @ p # after) (parseInt (product_id p)) = Some p"
    unfolding find_product_def by (intro find_hit) simp_all
  then show "find_product (before @ p # after) (card_id (toCard q)) = Some p"
    "find_product (before @ p # after) (card_id (toCard p)) = Some p"
    by (simp_all add: c)
next
  show "parseInt ''7'' = Num 7" by code_simp
  show "parseInt ''7x'' = Num 7" by code_simp
qed

theorem BestSelling_lookup_by_parseInt_witness:
  "parseInt (product_id uuid_product) = NaN \<and>
   find_product [uuid_product, seven, seven_x] (card_id (toCard uuid_product)) = None \<and>
   handleQuickView own_env [uuid_product, seven, seven_x] (card_id (toCard uuid_product)) = [] \<and>
   handleAddToCart own_env [uuid_product, seven, seven_x] (card_id (toCard uuid_product)) = [] \<and>
   parseInt (product_id seven) = parseInt (product_id seven_x) \<and>
   seven \<noteq> seven_x \<and>
   find_product [uuid_product, seven, seven_x] (card_id (toCard seven)) = Some seven \<and>
   find_product [uuid_product, seven, seven_x] (card_id (toCard seven_x)) = Some seven \<and>
   handleQuickView own_env [uuid_product, seven, seven_x] (card_id (toCard seven_x)) =
     [Navigate ''/all-products?product=7''] \<and>
   handleQuickView parent_env [uuid_product, seven, seven_x] (card_id (toCard seven_x)) =
     [OnQuickView ''7''] \<and>
   handleAddToCart own_env [uuid_product, seven, seven_x] (card_id (toCard seven_x)) =
     [AddToDbCart ''7'' None 1, Toast ''Added to Cart!'' ''Leggings added to cart'' None]"
proof -
  let ?L = "[uuid_product, seven, seven_x]"
  have nan: "parseInt (product_id uuid_product) = NaN" by code_simp
  have same: "parseInt (product_id seven) = parseInt (product_id seven_x)" by code_simp
  have num: "parseInt (product_id seven) \<noteq> NaN" by code_simp
  have miss: "\<forall>x \<in> set [uuid_product]. parseInt (product_id x) \<noteq> parseInt (product_id seven)"
    using nan num by simp
  have ne: "seven \<noteq> seven_x"
    by (simp add: seven_def seven_x_def sample_product_def)
  have pid: "product_id seven = ''7''"
    by (simp add: seven_def sample_product_def)
  have envs: "\<not> has_onQuickView own_env" "has_onQuickView parent_env"
    by (simp_all add: own_env_def parent_env_def)
  have single: "handleAddToCart own_env [seven] (card_id (toCard seven_x)) =
      [AddToDbCart ''7'' None 1, Toast ''Added to Cart!'' ''Leggings added to cart'' None]"
    by code_simp
  note t1 = BestSelling_lookup_by_parseInt [where p = uuid_product and q = uuid_product
      and ps = ?L and e = own_env and before = "[]" and after = "[]"
      and k = NaN and r = uuid_product]
  note t2 = BestSelling_lookup_by_parseInt [where p = seven and q = seven_x
      and ps = ?L and e = own_env and before = "[uuid_product]" and after = "[seven_x]"
      and k = "card_id (toCard seven_x)" and r = seven]
  note t3 = BestSelling_lookup_by_parseInt [where p = seven and q = seven_x
      and ps = ?L and e = parent_env and before = "[uuid_product]" and after = "[seven_x]"
      and k = "card_id (toCard seven_x)" and r = seven]
  from t2 same num miss have found: "find_product ?L (card_id (toCard seven_x)) = Some seven"
    "find_product ?L (card_id (toCard seven)) = Some seven"
    by simp_all
  from t1 nan have 1: "find_product ?L (card_id (toCard uuid_product)) = None"
    "handleQuickView own_env ?L (card_id (toCard uuid_product)) = []"
    "handleAddToCart own_env ?L (card_id (toCard uuid_product)) = []"
    by simp_all
  from t2 found envs pid have 2: "handleQuickView own_env ?L (card_id (toCard seven_x)) =
     [Navigate ''/all-products?product=7'']"
    by simp
  from t3 found envs pid have 3: "handleQuickView parent_env ?L (card_id (toCard seven_x)) =
     [OnQuickView ''7'']"
    by simp
  from t2 found single have 4: "handleAddToCart own_env ?L (card_id (toCard seven_x)) =
     [AddToDbCart ''7'' None 1, Toast ''Added to Cart!'' ''Leggings added to cart'' None]"
    by simp
  from nan same ne found 1 2 3 4 show ?thesis by simp
qed

text \<open>A run of digits beyond the largest double parses to \<open>Infinity\<close>.\<close>

lemma parseInt_overflow: "parseInt (replicate 309 CHR ''9'') = Infinity"
  by code_simp

section \<open>Failures of the backend\<close>

lemma failed_rows_throws: "failed r \<Longrightarrow> \<exists>err. rows_or_throw r = Inl err"
  by (cases r rule: rows_or_throw.cases) auto

lemma failed_row_throws: "failed r \<Longrightarrow> \<exists>err. row_or_throw r = Inl err"
  by (cases r rule: row_or_throw.cases) auto

lemma length_mockProducts: "length (mockProducts now) = 3"
  by (simp add: mockProducts_def)

lemma ids_mockProducts: "map product_id (mockProducts now) = [''1'', ''2'', ''3'']"
  by (simp add: mockProducts_def)

text \<open>
  Claim C1, as the code has it.  When the backend fails during \<open>fetchProducts\<close> (the
  awaited query throws, or resolves with an error), the hook with the fallback ends with
  \<open>products\<close> equal to the three sample products, whose ids are \<open>"1"\<close>, \<open>"2"\<close>, \<open>"3"\<close>;
  the other version of the hook leaves \<open>products\<close> as it was.  Both record a message in
  \<open>error\<close>, reset \<open>loading\<close>, and pass nothing on to the caller.
\<close>

theorem fetchProducts_failure:
  assumes "failed (select_rows b fetchProducts_query)"
  shows "(case fetchProducts now b s of
            Inl err \<Rightarrow> False
          | Inr s' \<Rightarrow> hook_products s' = mockProducts now \<and>
                     map product_id (hook_products s') = [''1'', ''2'', ''3''] \<and>
                     length (hook_products s') = 3 \<and> hook_error s' \<noteq> None \<and> \<not> loading s') \<and>
         (case fetchProducts_plain b s of
            Inl err \<Rightarrow> False
          | Inr s' \<Rightarrow> hook_products s' = hook_products s \<and> hook_error s' \<noteq> None \<and>
                     \<not> loading s')"
proof -
  from assms obtain err where "rows_or_throw (select_rows b fetchProducts_query) = Inl err"
    using failed_rows_throws by blast
  then show ?thesis
    by (simp add: fetchProducts_def fetchProducts_try_def fetchProducts_plain_def
          fetchProducts_try_plain_def length_mockProducts ids_mockProducts)
qed

theorem fetchProducts_failure_witness:
  "failed (select_rows offline_backend fetchProducts_query) \<and>
   fetchProducts clock offline_backend initial_hook_state =
     Inr \<lparr>hook_products = mockProducts clock, loading = False,
          hook_error = Some ''Failed to fetch''\<rparr> \<and>
   map product_id (mockProducts clock) = [''1'', ''2'', ''3'']"
proof -
  have f: "failed (select_rows offline_backend fetchProducts_query)"
    by (simp add: offline_backend_def)
  from fetchProducts_failure [OF f, of clock initial_hook_state] f show ?thesis
    by (simp add: offline_backend_def fetchProducts_def fetchProducts_try_def
          initial_hook_state_def errorMessage_def split: sum.splits)
qed

text \<open>
  The claim as written fails for the version of the hook without sample products: from
  the initial state and an unreachable backend, \<open>products\<close> is still empty after
  \<open>fetchProducts\<close>.
\<close>

theorem fetchProducts_plain_keeps_products:
  "failed (select_rows offline_backend fetchProducts_query) \<and>
   fetchProducts_plain offline_backend initial_hook_state =
     Inr \<lparr>hook_products = [], loading = False, hook_error = Some ''Failed to fetch''\<rparr> \<and>
   mockProducts clock \<noteq> []"
  by (simp add: offline_backend_def fetchProducts_plain_def fetchProducts_try_plain_def
        initial_hook_state_def errorMessage_def mockProducts_def)

text \<open>The message that either version stores is that of the exception.\<close>

lemma fetchProducts_failure_message:
  "rows_or_throw (select_rows b fetchProducts_query) = Inl err \<Longrightarrow>
   fetchProducts now b s =
     Inr \<lparr>hook_products = mockProducts now, loading = False,
          hook_error = Some (errorMessage err)\<rparr> \<and>
   fetchProducts_plain b s =
     Inr \<lparr>hook_products = hook_products s, loading = False,
          hook_error = Some (errorMessage err)\<rparr>"
  by (simp add: fetchProducts_def fetchProducts_try_def fetchProducts_plain_def
        fetchProducts_try_plain_def)

text \<open>No accessor lets an exception out, whatever the backend answers.\<close>

lemma accessors_never_raise:
  "getProductBySlug b slg \<noteq> Inl err"
  "getProductById b pid \<noteq> Inl err"
  "getProductsByCategory b categorySlug \<noteq> Inl err"
  "getHotSaleProducts b \<noteq> Inl err"
  "getAllProducts b \<noteq> Inl err"
  "getRelatedProducts b categoryId excludeProductId lmt \<noteq> Inl err"
  "getRecommendedProducts b lmt \<noteq> Inl err"
  by (simp_all add: getProductBySlug_def getProductById_def getProductsByCategory_def
        getHotSaleProducts_def getAllProducts_def getRelatedProducts_def
        getRecommendedProducts_def try_catch_def split: sum.splits)

lemma try_rows_failed:
  "failed r \<Longrightarrow> try_catch (rows_or_throw r) (\<lambda>err. Inr []) = Inr []"
  using failed_rows_throws [of r] by (auto simp: try_catch_def)

lemma try_row_failed:
  "failed r \<Longrightarrow> try_catch (row_or_throw r) (\<lambda>err. Inr None) = Inr None"
  using failed_row_throws [of r] by (auto simp: try_catch_def)

text \<open>
  Claim C8.  Every accessor other than \<open>fetchProducts\<close>, for every backend whose answer to
  the query of the accessor is a failure (a thrown exception or an \<open>error\<close> in the
  answer), returns normally: \<open>null\<close> from \<open>getProductBySlug\<close> and \<open>getProductById\<close>, the
  empty list from the five list accessors.  Nothing is raised to the caller.
\<close>

theorem accessors_on_failure:
  "(failed (select_single b (getProductBySlug_query slg)) \<longrightarrow> getProductBySlug b slg = Inr None) \<and>
   (failed (select_single b (getProductById_query pid)) \<longrightarrow> getProductById b pid = Inr None) \<and>
   (failed (select_rows b (getProductsByCategory_query categorySlug)) \<longrightarrow>
      getProductsByCategory b categorySlug = Inr []) \<and>
   (failed (select_rows b getHotSaleProducts_query) \<longrightarrow> getHotSaleProducts b = Inr []) \<and>
   (failed (select_rows b getAllProducts_query) \<longrightarrow> getAllProducts b = Inr []) \<and>
   (failed (select_rows b (getRelatedProducts_query categoryId excludeProductId
        (case lmt of None \<Rightarrow> 4 | Some n \<Rightarrow> n))) \<longrightarrow>
      getRelatedProducts b categoryId excludeProductId lmt = Inr []) \<and>
   (failed (select_rows b (getRecommendedProducts_query (case lmt of None \<Rightarrow> 6 | Some n \<Rightarrow> n))) \<longrightarrow>
      getRecommendedProducts b lmt = Inr [])"
  by (simp add: getProductBySlug_def getProductById_def getProductsByCategory_def
        getHotSaleProducts_def getAllProducts_def getRelatedProducts_def
        getRecommendedProducts_def try_rows_failed try_row_failed)

theorem accessors_on_failure_witness:
  "failed (select_single offline_backend (getProductBySlug_query ''polo'')) \<and>
   failed (select_rows offline_backend getAllProducts_query) \<and>
   getProductBySlug offline_backend ''polo'' = Inr None \<and>
   getProductById offline_backend ''p1'' = Inr None \<and>
   getProductsByCategory offline_backend ''mens-t-shirts'' = Inr [] \<and>
   getHotSaleProducts offline_backend = Inr [] \<and>
   getAllProducts offline_backend = Inr [] \<and>
   getRelatedProducts offline_backend ''c1'' ''p1'' (Some 2) = Inr [] \<and>
   getRecommendedProducts offline_backend None = Inr []"
  using accessors_on_failure [where b = offline_backend and slg = "''polo''" and pid = "''p1''"
      and categorySlug = "''mens-t-shirts''" and categoryId = "''c1''"
      and excludeProductId = "''p1''" and lmt = "Some 2"]
    accessors_on_failure [where b = offline_backend and lmt = None]
  by (simp add: offline_backend_def)

section \<open>Recommended products\<close>

lemma filters_recommended:
  "filters (getRecommendedProducts_query n) =
     [Eq ''is_active'' (VBool True), Or [Eq ''is_hot_sale'' (VBool True), Gte ''rating'' (VNum 4)]]"
  "order_by (getRecommendedProducts_query n) = Some (''rating'', False)"
  "row_limit (getRecommendedProducts_query n) = Some n"
  by (simp_all add: getRecommendedProducts_query_def chain_def from_q_def select_q_def eq_q_def
        or_q_def limit_q_def order_q_def)

lemma holds_recommended:
  "(\<forall>c \<in> set (filters (getRecommendedProducts_query n)). holds p c) = eligible p"
  by (auto simp: filters_recommended column_def eligible_def)

lemma rank_rating_le:
  "(rank (column ''rating'' a) \<le> rank (column ''rating'' b)) = (rating a \<le> rating b)"
  by (auto simp: column_def less_eq_prod_def)

lemma sorted_desc_rating:
  "sorted_wrt (\<lambda>a b. rating b \<le> rating a) (rev (sort_key (\<lambda>p. rank (column ''rating'' p)) xs))"
proof -
  have "sorted (map (\<lambda>p. rank (column ''rating'' p)) (sort_key (\<lambda>p. rank (column ''rating'' p)) xs))"
    by (rule sorted_sort_key)
  then have "sorted_wrt (\<lambda>a b. rating a \<le> rating b) (sort_key (\<lambda>p. rank (column ''rating'' p)) xs)"
    by (simp add: sorted_wrt_map rank_rating_le)
  then show ?thesis by (simp add: sorted_wrt_rev)
qed

lemma run_recommended:
  "run_query (getRecommendedProducts_query n) tbl =
     take n (rev (sort_key (\<lambda>p. rank (column ''rating'' p)) (rev (filter eligible tbl))))"
proof -
  have "(\<lambda>p. \<forall>c \<in> set (filters (getRecommendedProducts_query n)). holds p c) = eligible"
    by (rule ext) (rule holds_recommended)
  then show ?thesis
    by (simp add: run_query_def filters_recommended limit_rows_def order_rows_def)
qed

lemma getRecommendedProducts_table:
  "getRecommendedProducts (table_backend tbl) lmt =
     Inr (run_query (getRecommendedProducts_query (case lmt of None \<Rightarrow> 6 | Some n \<Rightarrow> n)) tbl)"
  by (simp add: getRecommendedProducts_def table_backend_def try_catch_def)

text \<open>
  Claim C6.  Against a backend that answers from a table, \<open>getRecommendedProducts\<close> returns
  only rows of the table with \<open>is_active\<close> and (\<open>is_hot_sale\<close> or \<open>rating >= 4\<close>), in
  descending order of rating, and at most \<open>limit\<close> of them (6 when no limit is given); it
  returns as many as the limit and the table allow.  In particular, for a catalog of three
  active products, one promoted with rating 5, one not promoted with rating 3, one not
  promoted with rating 4, stored in any order, \<open>getRecommendedProducts(2)\<close> returns the
  first and the third, in this order.
\<close>

theorem getRecommendedProducts_table_backend:
  "(\<exists>res. getRecommendedProducts (table_backend tbl) lmt = Inr res \<and>
      set res \<subseteq> {p \<in> set tbl. is_active p \<and> (is_hot_sale p \<or> 4 \<le> rating p)} \<and>
      sorted_wrt (\<lambda>a b. rating b \<le> rating a) res \<and>
      length res \<le> (case lmt of None \<Rightarrow> 6 | Some n \<Rightarrow> n) \<and>
      length res =
        min (case lmt of None \<Rightarrow> 6 | Some n \<Rightarrow> n)
          (length (filter (\<lambda>p. is_active p \<and> (is_hot_sale p \<or> 4 \<le> rating p)) tbl))) \<and>
   (is_active p1 \<and> is_hot_sale p1 \<and> rating p1 = 5 \<and>
    is_active p2 \<and> \<not> is_hot_sale p2 \<and> rating p2 = 3 \<and>
    is_active p3 \<and> \<not> is_hot_sale p3 \<and> rating p3 = 4 \<and>
    catalog \<in> {[p1, p2, p3], [p1, p3, p2], [p2, p1, p3], [p2, p3, p1], [p3, p1, p2], [p3, p2, p1]}
    \<longrightarrow> getRecommendedProducts (table_backend catalog) (Some 2) = Inr [p1, p3])"
proof (intro conjI impI)
  let ?n = "case lmt of None \<Rightarrow> 6 | Some n \<Rightarrow> n"
  let ?res = "run_query (getRecommendedProducts_query ?n) tbl"
  have e: "eligible = (\<lambda>p. is_active p \<and> (is_hot_sale p \<or> 4 \<le> rating p))"
    by (rule ext) (simp add: eligible_def)
  have "set ?res \<subseteq> set (rev (sort_key (\<lambda>p. rank (column ''rating'' p)) (rev (filter eligible tbl))))"
    unfolding run_recommended by (rule set_take_subset)
  then have "set ?res \<subseteq> set (filter eligible tbl)"
    by simp
  then have 1: "set ?res \<subseteq> {p \<in> set tbl. is_active p \<and> (is_hot_sale p \<or> 4 \<le> rating p)}"
    by (auto simp: eligible_def)
  have 2: "sorted_wrt (\<lambda>a b. rating b \<le> rating a) ?res"
    unfolding run_recommended by (rule sorted_wrt_take) (rule sorted_desc_rating)
  have 3: "length ?res =
      min ?n (length (filter (\<lambda>p. is_active p \<and> (is_hot_sale p \<or> 4 \<le> rating p)) tbl))"
    by (simp add: run_recommended e min.commute)
  then have 4: "length ?res \<le> ?n" by simp
  from 1 2 3 4
  show "\<exists>res. getRecommendedProducts (table_backend tbl) lmt = Inr res \<and>
      set res \<subseteq> {p \<in> set tbl. is_active p \<and> (is_hot_sale p \<or> 4 \<le> rating p)} \<and>
      sorted_wrt (\<lambda>a b. rating b \<le> rating a) res \<and>
      length res \<le> ?n \<and>
      length res =
        min ?n (length (filter (\<lambda>p. is_active p \<and> (is_hot_sale p \<or> 4 \<le> rating p)) tbl))"
    unfolding getRecommendedProducts_table by blast
next
  assume "is_active p1 \<and> is_hot_sale p1 \<and> rating p1 = 5 \<and>
    is_active p2 \<and> \<not> is_hot_sale p2 \<and> rating p2 = 3 \<and>
    is_active p3 \<and> \<not> is_hot_sale p3 \<and> rating p3 = 4 \<and>
    catalog \<in> {[p1, p2, p3], [p1, p3, p2], [p2, p1, p3], [p2, p3, p1], [p3, p1, p2], [p3, p2, p1]}"
  then have "run_query (getRecommendedProducts_query 2) catalog = [p1, p3]"
    by (auto simp add: run_recommended eligible_def rank_rating_le less_eq_prod_def column_def)
  then show "getRecommendedProducts (table_backend catalog) (Some 2) = Inr [p1, p3]"
    by (simp add: getRecommendedProducts_table)
qed

theorem getRecommendedProducts_table_backend_witness:
  "getRecommendedProducts (table_backend [hot_five, plain_three, plain_four]) (Some 2) =
     Inr [hot_five, plain_four] \<and>
   getRecommendedProducts (table_backend [plain_three, plain_four, hot_five]) (Some 2) =
     Inr [hot_five, plain_four]"
  using getRecommendedProducts_table_backend [where ?p1.0 = hot_five and ?p2.0 = plain_three
      and ?p3.0 = plain_four and catalog = "[hot_five, plain_three, plain_four]"]
    getRecommendedProducts_table_backend [where ?p1.0 = hot_five and ?p2.0 = plain_three
      and ?p3.0 = plain_four and catalog = "[plain_three, plain_four, hot_five]"]
  by (simp add: hot_five_def plain_three_def plain_four_def sample_product_def)

section \<open>Facets\<close>

lemma new_Set_snoc: "new_Set key (xs @ [x]) = Set_add key (new_Set key xs) x"
  by (simp add: new_Set_def)

lemma new_Set_Nil: "new_Set key [] = []"
  by (simp add: new_Set_def)

lemma set_new_Set: "set (new_Set key xs) \<subseteq> set xs"
  by (induction xs rule: rev_induct) (auto simp: new_Set_snoc new_Set_Nil Set_add_def)

lemma keys_new_Set: "key ` set (new_Set key xs) = key ` set xs"
  by (induction xs rule: rev_induct) (auto simp: new_Set_snoc new_Set_Nil Set_add_def)

lemma distinct_new_Set: "distinct (map key (new_Set key xs))"
  by (induction xs rule: rev_induct) (auto simp: new_Set_snoc new_Set_Nil Set_add_def)

lemma first_seen_snoc:
  "first_seen (xs @ [x]) = first_seen xs @ (if x \<in> set xs then [] else [x])"
proof -
  have "filter (\<lambda>i. (xs @ [x]) ! i \<notin> set (take i (xs @ [x]))) [0..<length xs] =
        filter (\<lambda>i. xs ! i \<notin> set (take i xs)) [0..<length xs]"
    by (rule filter_cong) (auto simp: nth_append)
  moreover have "map (\<lambda>i. (xs @ [x]) ! i) (filter (\<lambda>i. xs ! i \<notin> set (take i xs)) [0..<length xs]) =
        map (\<lambda>i. xs ! i) (filter (\<lambda>i. xs ! i \<notin> set (take i xs)) [0..<length xs])"
    by (rule map_cong) (auto simp: nth_append)
  ultimately show ?thesis by (simp add: first_seen_def)
qed

lemma new_Set_first_seen: "new_Set (\<lambda>s. s) xs = first_seen xs"
proof (induction xs rule: rev_induct)
  case Nil
  show ?case by (simp add: new_Set_Nil first_seen_def)
next
  case (snoc x xs)
  have "set (new_Set (\<lambda>s. s) xs) = set xs" using keys_new_Set [of "\<lambda>s. s" xs] by simp
  with snoc show ?case by (simp add: new_Set_snoc first_seen_snoc Set_add_def)
qed

lemma new_Set_distinct_keys: "distinct (map key xs) \<Longrightarrow> new_Set key xs = xs"
proof (induction xs rule: rev_induct)
  case Nil
  show ?case by (simp add: new_Set_Nil)
next
  case (snoc x xs)
  then show ?case by (auto simp: new_Set_snoc Set_add_def)
qed

lemma filter_Boolean_nonempty: "[] \<notin> set (filter_Boolean xs)"
  by (induction xs rule: filter_Boolean.induct) (auto simp: truthy_def)

lemma filter_Boolean_truthy:
  "filter_Boolean (filter truthy_opt xs) = filter_Boolean xs"
  by (induction xs rule: filter_Boolean.induct) auto

lemma filter_Boolean_filter_map:
  "filter_Boolean (map f (filter (\<lambda>v. truthy_opt (f v)) vs)) = filter_Boolean (map f vs)"
proof -
  have "map f (filter (\<lambda>v. truthy_opt (f v)) vs) = filter truthy_opt (map f vs)"
    by (simp add: filter_map comp_def)
  then show ?thesis by (simp add: filter_Boolean_truthy)
qed

text \<open>
  The objects that \<open>map\<close> creates are pairwise different, so the set of the colour
  buttons keeps every one of them: one entry for each variant with a colour name.
\<close>

lemma colorFacets_all:
  "colorFacets p =
     map (\<lambda>v. \<lparr>facet_name = color_name v, facet_code = color_code v\<rparr>)
       (filter (\<lambda>v. truthy_opt (color_name v)) (variants p))"
proof -
  let ?objs = "filter (\<lambda>c. truthy_opt (facet_name (snd c))) (colorObjects p)"
  have "distinct (map fst (colorObjects p))"
    by (simp add: colorObjects_def)
  then have "distinct (map fst ?objs)"
    by (simp add: distinct_map_filter)
  then have "new_Set fst ?objs = ?objs" by (rule new_Set_distinct_keys)
  then have "colorFacets p = map snd ?objs" by (simp add: colorFacets_def)
  also have "\<dots> = filter (\<lambda>c. truthy_opt (facet_name c)) (map snd (colorObjects p))"
    by (simp add: filter_map comp_def)
  also have "map snd (colorObjects p) = map (\<lambda>v. \<lparr>facet_name = color_name v, facet_code = color_code v\<rparr>) (variants p)"
    by (simp add: colorObjects_def enumerate_eq_zip)
  finally show ?thesis by (simp add: filter_map comp_def)
qed


lemma or_else_nonempty: "d \<noteq> [] \<Longrightarrow> or_else x d \<noteq> []"
  by (cases x) (auto simp: truthy_def)

lemma cardColors_codes:
  "map swatch_color (map (\<lambda>v. \<lparr>swatch_name = or_else (color_name v) ''Color'',
                swatch_color = or_else (color_code v) ''#000000''\<rparr>)
       (filter (\<lambda>v. truthy_opt (color_code v)) vs)) = filter_Boolean (map color_code vs)"
proof (induction vs)
  case Nil
  show ?case by simp
next
  case (Cons v vs)
  then show ?case by (cases "color_code v") auto
qed

text \<open>
  Claim C3, as the code has it.  For every product, the size options of the detail page
  have no duplicate and no empty label, and are the size labels of the variants in
  first-seen order.  The colour options of the detail page have no \<open>null\<close> or empty name,
  and their names appear in first-seen order over the variants.  The sizes and colours of
  a \<open>BestSelling\<close> card are not deduplicated: there is one size for every variant with a
  size label and one colour for every variant with a colour code, in the order of the
  variants, and none of them is empty (a colour without name is called \<open>Color\<close>).
\<close>

theorem facets_of_variants:
  "distinct (sizeFacets p) \<and> [] \<notin> set (sizeFacets p) \<and>
   sizeFacets p = first_seen (filter_Boolean (map size_label (variants p))) \<and>
   (\<forall>c \<in> set (colorFacets p). truthy_opt (facet_name c)) \<and>
   first_seen (map facet_name (colorFacets p)) =
     first_seen (filter truthy_opt (map color_name (variants p))) \<and>
   cardSizes p = filter_Boolean (map size_label (variants p)) \<and>
   [] \<notin> set (cardSizes p) \<and>
   map swatch_color (cardColors p) = filter_Boolean (map color_code (variants p)) \<and>
   (\<forall>c \<in> set (cardColors p). swatch_name c \<noteq> [] \<and> swatch_color c \<noteq> [])"
proof (intro conjI)
  show "distinct (sizeFacets p)"
    using distinct_new_Set [of "\<lambda>s. s" "filter_Boolean (map size_label (variants p))"]
    by (simp add: sizeFacets_def)
  show "[] \<notin> set (sizeFacets p)"
    using set_new_Set [of "\<lambda>s. s" "filter_Boolean (map size_label (variants p))"]
      filter_Boolean_nonempty [of "map size_label (variants p)"]
    by (auto simp: sizeFacets_def)
  show "sizeFacets p = first_seen (filter_Boolean (map size_label (variants p)))"
    by (simp add: sizeFacets_def new_Set_first_seen)
  show "\<forall>c \<in> set (colorFacets p). truthy_opt (facet_name c)"
    by (auto simp: colorFacets_all)
  have "map facet_name (colorFacets p) = filter truthy_opt (map color_name (variants p))"
    by (simp add: colorFacets_all filter_map comp_def)
  then show "first_seen (map facet_name (colorFacets p)) =
     first_seen (filter truthy_opt (map color_name (variants p)))"
    by simp
  show c: "cardSizes p = filter_Boolean (map size_label (variants p))"
    by (simp add: cardSizes_def filter_Boolean_filter_map)
  show "[] \<notin> set (cardSizes p)"
    unfolding c by (rule filter_Boolean_nonempty)
  show m: "map swatch_color (cardColors p) = filter_Boolean (map color_code (variants p))"
    unfolding cardColors_def by (rule cardColors_codes)
  show "\<forall>c \<in> set (cardColors p). swatch_name c \<noteq> [] \<and> swatch_color c \<noteq> []"
    by (auto simp: cardColors_def or_else_nonempty)
qed

theorem facets_of_variants_witness:
  "sizeFacets wardrobe = [''M'', ''L''] \<and> distinct (sizeFacets wardrobe) \<and>
   map facet_name (colorFacets wardrobe) = [Some ''Black'', Some ''Black'', Some ''Navy''] \<and>
   first_seen (map facet_name (colorFacets wardrobe)) = [Some ''Black'', Some ''Navy''] \<and>
   cardSizes wardrobe = [''M'', ''L'', ''M''] \<and>
   map swatch_name (cardColors wardrobe) = [''Black'', ''Black'', ''Color'', ''Navy'']"
proof -
  have "sizeFacets wardrobe = [''M'', ''L'']" by code_simp
  moreover have "map facet_name (colorFacets wardrobe) = [Some ''Black'', Some ''Black'', Some ''Navy'']"
    by code_simp
  moreover have "first_seen (filter truthy_opt (map color_name (variants wardrobe))) =
      [Some ''Black'', Some ''Navy'']"
    by code_simp
  moreover have "filter_Boolean (map size_label (variants wardrobe)) = [''M'', ''L'', ''M'']"
    by code_simp
  moreover have "map swatch_name (cardColors wardrobe) = [''Black'', ''Black'', ''Color'', ''Navy'']"
    by code_simp
  ultimately show ?thesis
    using facets_of_variants [of wardrobe] by simp
qed

text \<open>
  The claim as written fails on the card of \<open>wardrobe\<close>, which lists size \<open>M\<close> and colour
  \<open>Black\<close> twice.
\<close>

theorem cardSizes_duplicates:
  "cardSizes wardrobe = [''M'', ''L'', ''M''] \<and> \<not> distinct (cardSizes wardrobe) \<and>
   map swatch_name (cardColors wardrobe) = [''Black'', ''Black'', ''Color'', ''Navy''] \<and>
   \<not> distinct (map swatch_name (cardColors wardrobe))"
  by code_simp

text \<open>The colour buttons of the detail page repeat \<open>Black\<close> as well.\<close>

lemma colorFacets_duplicates:
  "map facet_name (colorFacets wardrobe) = [Some ''Black'', Some ''Black'', Some ''Navy''] \<and>
   \<not> distinct (map facet_name (colorFacets wardrobe))"
  by code_simp

text \<open>On a card, a colour code without a colour name is called \<open>Color\<close>.\<close>

lemma cardColors_missing_name:
  "\<not> truthy_opt (color_name v) \<Longrightarrow> truthy_opt (color_code v) \<Longrightarrow> variants p = [v] \<Longrightarrow>
   map swatch_name (cardColors p) = [''Color'']"
  by (cases "color_name v") (simp_all add: cardColors_def)

section \<open>The filter and the arrays of the page\<close>

text \<open>
  The array that the page shows after the effect, or after a click that returns, holds
  the value computed by \<open>subcategoryFilter\<close>, or by \<open>filterClick\<close>.
\<close>

lemma subcategory_effect_value:
  "products_ref s < length (store s) \<Longrightarrow>
   deref (store (subcategory_effect subcat s)) (filteredProducts_ref (subcategory_effect subcat s)) =
     subcategoryFilter subcat (deref (store s) (products_ref s))"
  by (cases subcat)
    (auto simp: subcategory_effect_def show_all_def subcategoryFilter_def alloc_def deref_def)

lemma handleFilterClick_value:
  "products_ref s < length (store s) \<Longrightarrow>
   (case handleFilterClick flt s of
      (s', None) \<Rightarrow> filterClick flt (deref (store s) (products_ref s)) =
                      Inr (deref (store s') (filteredProducts_ref s'))
    | (s', Some err) \<Rightarrow> filterClick flt (deref (store s) (products_ref s)) = Inl err)"
  by (auto simp: handleFilterClick_def filterClick_def alloc_def deref_def Let_def split: sum.splits)

lemma includes_str_empty: "includes_str hay []"
  by (cases hay) simp_all

lemma filterClick_empty: "filterClick [] ps = Inr ps"
  by (simp add: filterClick_def filter_throwing_all_true matches_click_def toLowerCase_def includes_str_empty)

text \<open>
  Claim C5, as the code has it.  With an absent or empty \<open>subcategory\<close> parameter, or with
  exactly \<open>all\<close>, the effect shows the fetched products: \<open>filteredProducts\<close> becomes the
  very reference held in \<open>products\<close>, not a copy, and no array is made.  The same holds in
  \<open>handleFilterClick\<close> for exactly \<open>All\<close> or \<open>all\<close>; for the empty filter it returns a list
  equal to the input.  No filtering operation changes the input list: every array that
  existed before still exists unchanged afterwards, and \<open>products\<close> still refers to the
  same one.
\<close>

theorem filter_all_keeps_reference:
  "(subcat \<in> {None, Some [], Some ''all''} \<longrightarrow>
      subcategoryFilter subcat ps = ps \<and>
      filteredProducts_ref (subcategory_effect subcat s) = products_ref s \<and>
      store (subcategory_effect subcat s) = store s) \<and>
   (flt \<in> {''All'', ''all''} \<longrightarrow>
      filterClick flt ps = Inr ps \<and>
      filteredProducts_ref (fst (handleFilterClick flt s)) = products_ref s \<and>
      store (fst (handleFilterClick flt s)) = store s \<and>
      snd (handleFilterClick flt s) = None) \<and>
   filterClick [] ps = Inr ps \<and>
   prefix (store s) (store (subcategory_effect subcat s)) \<and>
   products_ref (subcategory_effect subcat s) = products_ref s \<and>
   prefix (store s) (store (fst (handleFilterClick flt s))) \<and>
   products_ref (fst (handleFilterClick flt s)) = products_ref s"
proof (intro conjI impI)
  assume a: "subcat \<in> {None, Some [], Some ''all''}"
  then show "subcategoryFilter subcat ps = ps"
    by (auto simp: subcategoryFilter_def truthy_def)
  from a show "filteredProducts_ref (subcategory_effect subcat s) = products_ref s"
    by (auto simp: subcategory_effect_def show_all_def truthy_def)
  from a show "store (subcategory_effect subcat s) = store s"
    by (auto simp: subcategory_effect_def show_all_def truthy_def)
next
  assume a: "flt \<in> {''All'', ''all''}"
  then show "filterClick flt ps = Inr ps"
    by (auto simp: filterClick_def)
  from a show "filteredProducts_ref (fst (handleFilterClick flt s)) = products_ref s"
    by (auto simp: handleFilterClick_def)
  from a show "store (fst (handleFilterClick flt s)) = store s"
    by (auto simp: handleFilterClick_def)
  from a show "snd (handleFilterClick flt s) = None"
    by (auto simp: handleFilterClick_def)
next
  show "filterClick [] ps = Inr ps" by (rule filterClick_empty)
  show "prefix (store s) (store (subcategory_effect subcat s))"
    by (simp add: subcategory_effect_def show_all_def alloc_def split: option.splits)
  show "products_ref (subcategory_effect subcat s) = products_ref s"
    by (simp add: subcategory_effect_def show_all_def alloc_def split: option.splits)
  show "prefix (store s) (store (fst (handleFilterClick flt s)))"
    by (simp add: handleFilterClick_def alloc_def Let_def split: sum.splits)
  show "products_ref (fst (handleFilterClick flt s)) = products_ref s"
    by (simp add: handleFilterClick_def alloc_def Let_def split: sum.splits)
qed

text \<open>Any other token makes the effect show a new array.\<close>

lemma filter_makes_new_array:
  "truthy_opt subcat \<Longrightarrow> subcat \<noteq> Some ''all'' \<Longrightarrow> products_ref s < length (store s) \<Longrightarrow>
   filteredProducts_ref (subcategory_effect subcat s) \<noteq> products_ref s"
  by (cases subcat) (simp_all add: subcategory_effect_def alloc_def)

theorem filter_all_keeps_reference_witness:
  "subcategoryFilter (Some ''all'') [polo, tee] = [polo, tee] \<and>
   filteredProducts_ref (subcategory_effect (Some ''all'') page) = products_ref page \<and>
   filterClick ''All'' [polo, tee] = Inr [polo, tee] \<and>
   filteredProducts_ref (fst (handleFilterClick ''All'' page)) = products_ref page \<and>
   prefix (store page) (store (subcategory_effect (Some ''tee'') page)) \<and>
   store (subcategory_effect (Some ''tee'') page) = [fetched, [tee]]"
proof -
  have "store (subcategory_effect (Some ''tee'') page) = [fetched, [tee]]"
    by code_simp
  then show ?thesis
    using filter_all_keeps_reference [where subcat = "Some ''all''" and flt = "''All''"
        and ps = "[polo, tee]" and s = page]
      filter_all_keeps_reference [where subcat = "Some ''tee''" and s = page]
    by simp
qed

text \<open>
  The claim as written fails in two ways.  \<open>ALL\<close> is \<open>all\<close> up to case, but the code
  compares with \<open>all\<close> exactly (and in the click handler with \<open>All\<close>), so \<open>ALL\<close> is used
  as a search token and removes the products that do not contain it.  And for \<open>all\<close> the
  filtered list is not a new collection: it is the reference of the input.
\<close>

theorem filter_ALL_is_a_token:
  "toLowerCase ''ALL'' = ''all'' \<and>
   subcategoryFilter (Some ''ALL'') [polo, tee] = [] \<and>
   filterClick ''ALL'' [tee] = Inr [] \<and>
   subcategoryFilter (Some ''All'') [polo, tee] = [] \<and>
   filteredProducts_ref (subcategory_effect (Some ''all'') page) = products_ref page \<and>
   filteredProducts_ref (subcategory_effect None page) = products_ref page \<and>
   filteredProducts_ref (fst (handleFilterClick ''all'' page)) = products_ref page"
  by code_simp

text \<open>
  Every token other than the exact ones is a search token, other capitalisations of
  \<open>all\<close> included.
\<close>

lemma other_tokens_are_searched:
  "t \<noteq> [] \<Longrightarrow> t \<noteq> ''all'' \<Longrightarrow>
   subcategoryFilter (Some t) ps = filter (matches_subcategory t) ps"
  "flt \<noteq> ''All'' \<Longrightarrow> flt \<noteq> ''all'' \<Longrightarrow>
   filterClick flt ps = filter_throwing (matches_click flt) ps"
  by (simp_all add: subcategoryFilter_def filterClick_def truthy_def)


end
